theory Spec2Isabelle
  imports Main "HOL-Library.FSet"
begin

section \<open>Syntax tree\<close>

text \<open>
  The code reads parso nodes: a leaf has a type, a value and a start and end position
  (line, column); an inner node has a type and children, and its positions are those of
  its first and last child. A node is addressed from the module node by the list of child
  indices leading to it, which gives the parent links and the identity of nodes the code
  relies on (\<^verbatim>\<open>name.parent\<close>, \<^verbatim>\<open>parent == self.tree_node\<close>).
\<close>

type_synonym pos = "nat \<times> nat"
type_synonym path = "nat list"

datatype node =
    Leaf string string pos pos
  | Node string "node list"

datatype error =
    NotImplementedError
  | IndexError
  | KeyError
  | TypeError
  | AttributeError
  | AssertionError
  | StopIteration
  | SimpleGetItemNotFound

fun node_type :: "node \<Rightarrow> string" where
  "node_type (Leaf t v s e) = t"
| "node_type (Node t cs) = t"

text \<open>\<^verbatim>\<open>node.children\<close>: a leaf has no such attribute.\<close>

fun children :: "node \<Rightarrow> error + node list" where
  "children (Leaf t v s e) = Inl AttributeError"
| "children (Node t cs) = Inr cs"

text \<open>
  \<^verbatim>\<open>node == '('\<close>: only operator and keyword leaves compare equal to a string, by
  their value; every other node compares by identity, so never equals a string.
\<close>

fun eq_str :: "node \<Rightarrow> string \<Rightarrow> bool" where
  "eq_str (Leaf t v s e) x = ((t = ''operator'' \<or> t = ''keyword'') \<and> v = x)"
| "eq_str (Node t cs) x = False"

fun start_pos :: "node \<Rightarrow> error + pos" where
  "start_pos (Leaf t v s e) = Inr s"
| "start_pos (Node t []) = Inl IndexError"
| "start_pos (Node t (c # cs)) = start_pos c"

fun end_pos :: "node \<Rightarrow> error + pos"
  and end_pos_last :: "node list \<Rightarrow> error + pos" where
  "end_pos (Leaf t v s e) = Inr e"
| "end_pos (Node t cs) = end_pos_last cs"
| "end_pos_last [] = Inl IndexError"
| "end_pos_last [c] = end_pos c"
| "end_pos_last (c # d # cs) = end_pos_last (d # cs)"

text \<open>Python compares position tuples lexicographically.\<close>

definition pos_less :: "pos \<Rightarrow> pos \<Rightarrow> bool" where
  "pos_less a b = (fst a < fst b \<or> (fst a = fst b \<and> snd a < snd b))"

fun node_at :: "node \<Rightarrow> path \<Rightarrow> node option" where
  "node_at n [] = Some n"
| "node_at (Leaf t v s e) (i # p) = None"
| "node_at (Node t cs) (i # p) = (if i < length cs then node_at (cs ! i) p else None)"

text \<open>\<^verbatim>\<open>xs[::2]\<close>: every second element, from the first.\<close>

fun every_second :: "'a list \<Rightarrow> 'a list" where
  "every_second [] = []"
| "every_second [x] = [x]"
| "every_second (x # y # xs) = x # every_second xs"

section \<open>Entries of a literal\<close>

text \<open>
  \<^verbatim>\<open>SequenceLiteralValue.get_tree_entries\<close> returns nodes for a list, set or tuple and
  (key, value) pairs for a dict.
\<close>

datatype entry = Elem node | KV node node

text \<open>
  The loop over the children of a \<^verbatim>\<open>dictorsetmaker\<close>, which draws further children
  from the same iterator with \<^verbatim>\<open>next\<close>: \<^verbatim>\<open>next(iterator)\<close> raises StopIteration at
  the end, \<^verbatim>\<open>next(iterator, None)\<close> does not.
\<close>

fun dictorsetmaker_entries :: "node list \<Rightarrow> error + entry list" where
  "dictorsetmaker_entries [] = Inr []"
| "dictorsetmaker_entries [key] =
     (if eq_str key ''**'' then Inl StopIteration
      else if node_type key = ''star_expr'' then Inr [] else Inr [Elem key])"
| "dictorsetmaker_entries [key, op] =
     (if eq_str key ''**'' then Inr []
      else if eq_str op '','' then
        (if node_type key = ''star_expr'' then Inr [] else Inr [Elem key])
      else if eq_str op '':'' then Inl StopIteration
      else Inl AssertionError)"
| "dictorsetmaker_entries (key # op # x # rest) =
     (if eq_str key ''**'' then dictorsetmaker_entries rest
      else if eq_str op '','' then
        (if node_type key = ''star_expr'' then dictorsetmaker_entries (x # rest)
         else (case dictorsetmaker_entries (x # rest) of
                 Inl e \<Rightarrow> Inl e
               | Inr kv \<Rightarrow> Inr (Elem key # kv)))
      else if eq_str op '':'' then
        (case dictorsetmaker_entries (tl rest) of
           Inl e \<Rightarrow> Inl e
         | Inr kv \<Rightarrow> Inr (KV key x # kv))
      else Inl AssertionError)"

definition TUPLE_LIKE :: "string list" where
  "TUPLE_LIKE = [''testlist_star_expr'', ''testlist'', ''subscriptlist'']"

definition get_tree_entries :: "node \<Rightarrow> error + entry list" where
  "get_tree_entries atom =
     (case children atom of
        Inl e \<Rightarrow> Inl e
      | Inr c \<Rightarrow>
          if node_type atom \<in> set TUPLE_LIKE then Inr (map Elem (every_second c))
          else if length c < 2 then Inl IndexError
          else
            let array_node = c ! 1 in
            if eq_str array_node '']'' \<or> eq_str array_node ''}'' \<or> eq_str array_node '')''
            then Inr []
            else if node_type array_node = ''testlist_comp'' then
              (case children array_node of
                 Inl e \<Rightarrow> Inl e
               | Inr cs \<Rightarrow>
                   Inr (map Elem (filter (\<lambda>v. node_type v \<noteq> ''star_expr'') (every_second cs))))
            else if node_type array_node = ''dictorsetmaker'' then
              (case children array_node of
                 Inl e \<Rightarrow> Inl e
               | Inr cs \<Rightarrow> dictorsetmaker_entries cs)
            else if node_type array_node = ''star_expr'' then Inr []
            else Inr [Elem array_node])"

section \<open>Values, lazy values and contexts\<close>

text \<open>
  The native objects behind compiled values and indices, as far as literals go; the
  slice stands for any slice object.
\<close>

datatype simple = PyNone | PyBool bool | PyInt int | PyStr string | PySlice

text \<open>
  A value set is a finite set of values. A literal container keeps its array type (fixed
  when it is built), its defining context and its atom; a synthetic sequence keeps its
  list of lazy values; a merged array keeps its arrays. A context knows the module node
  it lives in, whether its root context is a compiled object, its own tree node (a path
  from the module node), the function value and the arguments when it is the execution
  of a function, and the names predefined for it per flow node by
  \<^verbatim>\<open>predefine_names\<close>. A function value keeps its parent context and its definition; an
  overloaded one wraps a function and keeps the list of its overloads.
\<close>

datatype val =
    CompiledObject simple
  | SequenceLiteralValue string ctx node
  | FakeSequence string "lazy list"
  | MergedArray string "val list"
  | Slice ctx
  | Generator ctx
  | FunctionValue ctx path
  | OverloadedFunctionValue val "val list"
  | OtherValue nat
and lazy =
    LazyKnownValue val
  | LazyKnownValues "val fset"
  | LazyTreeValue ctx node
and ctx =
    Context node bool path "(val \<times> lazy list) option"
      "(path \<times> (string \<times> val fset) list) list"

fun module_node :: "ctx \<Rightarrow> node" where
  "module_node (Context m c t a p) = m"

fun root_is_compiled :: "ctx \<Rightarrow> bool" where
  "root_is_compiled (Context m c t a p) = c"

fun tree_node :: "ctx \<Rightarrow> path" where
  "tree_node (Context m c t a p) = t"

fun execution_of :: "ctx \<Rightarrow> (val \<times> lazy list) option" where
  "execution_of (Context m c t a p) = a"

fun predefined_names :: "ctx \<Rightarrow> (path \<times> (string \<times> val fset) list) list" where
  "predefined_names (Context m c t a p) = p"

text \<open>
  The collaborators the code calls and this development does not define:
  \<^item> the inference of a node in a context;
  \<^item> the iteration, the array type and the indexing of the values whose classes live
    elsewhere, and the iteration of a value set;
  \<^item> the return types from the annotation of an execution and from the docstring of a
    function;
  \<^item> the return statements and the yield expressions of a function definition (given
    the module node and the path of the definition), in source order;
  \<^item> the reachability of a statement of a function, for an execution;
  \<^item> the parameters bound for an execution, each with whether it matches the
    signature, and the issues found while binding;
  \<^item> the names of a given value that the name filter of a context finds before a
    position;
  \<^item> whether the inference state is in analysis mode, the version of the environment,
    and the generic classes that wrap the results of an asynchronous function.
\<close>

datatype reach = REACHABLE | UNREACHABLE | UNSURE

record env =
  infer_node :: "ctx \<Rightarrow> node \<Rightarrow> val fset"
  other_iter :: "val \<Rightarrow> error + lazy list"
  other_array_type :: "val \<Rightarrow> string"
  other_getitem :: "val \<Rightarrow> simple \<Rightarrow> error + val fset"
  iterate :: "val fset \<Rightarrow> error + lazy list"
  annotation_return_types :: "ctx \<Rightarrow> val fset"
  docstring_return_types :: "val \<Rightarrow> val fset"
  iter_return_stmts :: "node \<Rightarrow> path \<Rightarrow> path list"
  get_yield_exprs :: "node \<Rightarrow> path \<Rightarrow> path list"
  reachability_check :: "ctx \<Rightarrow> path \<Rightarrow> path \<Rightarrow> reach"
  executed_params_and_issues :: "ctx \<Rightarrow> bool list \<times> string list"
  filter_get :: "ctx \<Rightarrow> pos \<Rightarrow> string \<Rightarrow> path list"
  is_analysis :: bool
  version_info :: "nat \<times> nat"
  async_generator_of :: "val fset \<Rightarrow> val fset"
  coroutine_of :: "val fset \<Rightarrow> val fset"

text \<open>\<^verbatim>\<open>lazy_value.infer()\<close>.\<close>

fun infer :: "env \<Rightarrow> lazy \<Rightarrow> val fset" where
  "infer E (LazyKnownValue v) = {|v|}"
| "infer E (LazyKnownValues vs) = vs"
| "infer E (LazyTreeValue c n) = infer_node E c n"

text \<open>\<^verbatim>\<open>ValueSet.from_sets\<close>: the union of the given value sets.\<close>

definition from_sets :: "val fset list \<Rightarrow> val fset" where
  "from_sets sets = foldr (|\<union>|) sets {||}"

text \<open>
  \<^verbatim>\<open>SequenceLiteralValue.__init__\<close> computes the array type from the atom;
  \<^verbatim>\<open>DictLiteralValue\<close> fixes it to dict; \<^verbatim>\<open>MergedArray.__init__\<close> takes the one of
  its last array. The name of a sequence, \<^verbatim>\<open>sequence.name.string_name\<close>, is its array
  type.
\<close>

fun array_type :: "env \<Rightarrow> val \<Rightarrow> string" where
  "array_type E (SequenceLiteralValue t c atom) = t"
| "array_type E (FakeSequence t lzs) = t"
| "array_type E (MergedArray t arrays) = t"
| "array_type E v = other_array_type E v"

definition new_SequenceLiteralValue :: "ctx \<Rightarrow> node \<Rightarrow> error + val" where
  "new_SequenceLiteralValue defining_context atom =
     (if node_type atom \<in> set TUPLE_LIKE
      then Inr (SequenceLiteralValue ''tuple'' defining_context atom)
      else case children atom of
             Inl e \<Rightarrow> Inl e
           | Inr [] \<Rightarrow> Inl IndexError
           | Inr (b # cs) \<Rightarrow>
               if eq_str b ''('' then Inr (SequenceLiteralValue ''tuple'' defining_context atom)
               else if eq_str b ''['' then Inr (SequenceLiteralValue ''list'' defining_context atom)
               else if eq_str b ''{'' then Inr (SequenceLiteralValue ''set'' defining_context atom)
               else Inl KeyError)"

definition new_DictLiteralValue :: "ctx \<Rightarrow> node \<Rightarrow> val" where
  "new_DictLiteralValue defining_context atom = SequenceLiteralValue ''dict'' defining_context atom"

definition new_MergedArray :: "env \<Rightarrow> val list \<Rightarrow> error + val" where
  "new_MergedArray E arrays =
     (if arrays = [] then Inl IndexError
      else Inr (MergedArray (array_type E (last arrays)) arrays))"

section \<open>Dynamic array additions\<close>

text \<open>
  \<^verbatim>\<open>settings\<close> is global mutable state; the scanner reads and writes it, so it is passed
  and returned.
\<close>

record settings =
  dynamic_array_additions :: bool
  dynamic_params_for_other_modules :: bool

text \<open>
  \<^verbatim>\<open>module.get_used_names()[name]\<close>: the name leaves of the module with that value, in
  source order, each as its path from the module node. The dictionary has no key for a
  name that does not occur.
\<close>

fun used_names :: "node \<Rightarrow> string \<Rightarrow> path list"
  and used_names_children :: "nat \<Rightarrow> node list \<Rightarrow> string \<Rightarrow> path list" where
  "used_names (Leaf t v s e) x = (if t = ''name'' \<and> v = x then [[]] else [])"
| "used_names (Node t cs) x = used_names_children 0 cs x"
| "used_names_children i [] x = []"
| "used_names_children i (c # cs) x =
     map ((#) i) (used_names c x) @ used_names_children (Suc i) cs x"

text \<open>
  The body of the loop over the possible names, for one name: it either goes on to the
  next name (\<open>None\<close>) or raises. Every statement after
  \<^verbatim>\<open>raise NotImplementedError\<close> is unreachable, so a name that passes all the tests
  raises and nothing is ever added.
\<close>

definition check_possible_name :: "ctx \<Rightarrow> path \<Rightarrow> error option" where
  "check_possible_name context name =
     (case node_at (module_node context) (tree_node context) of
        None \<Rightarrow> Some AttributeError
      | Some value_node \<Rightarrow>
     (case node_at (module_node context) name of
        None \<Rightarrow> Some AttributeError
      | Some name_node \<Rightarrow>
     (case start_pos value_node of Inl e \<Rightarrow> Some e | Inr vs \<Rightarrow>
     (case start_pos name_node of Inl e \<Rightarrow> Some e | Inr ns \<Rightarrow>
      if \<not> pos_less vs ns then None
      else
     (case end_pos value_node of Inl e \<Rightarrow> Some e | Inr ve \<Rightarrow>
      if \<not> pos_less ns ve then None
      else if length name < 2 then Some AttributeError
      else
        let trailer = butlast name;
            power = butlast trailer;
            trailer_pos = last trailer
        in
     (case node_at (module_node context) power of
        None \<Rightarrow> Some AttributeError
      | Some power_node \<Rightarrow>
     (case children power_node of Inl e \<Rightarrow> Some e | Inr pcs \<Rightarrow>
      if \<not> trailer_pos + 1 < length pcs then None
      else
        let execution_trailer = pcs ! (trailer_pos + 1) in
        if node_type execution_trailer \<noteq> ''trailer'' then None
        else
     (case children execution_trailer of Inl e \<Rightarrow> Some e | Inr ecs \<Rightarrow>
      if length ecs < 1 then Some IndexError
      else if \<not> eq_str (ecs ! 0) ''('' then None
      else if length ecs < 2 then Some IndexError
      else if eq_str (ecs ! 1) '')'' then None
      else Some NotImplementedError))))))))"

fun check_possible_names :: "ctx \<Rightarrow> path list \<Rightarrow> error option" where
  "check_possible_names context [] = None"
| "check_possible_names context (name # names) =
     (case check_possible_name context name of
        Some e \<Rightarrow> Some e
      | None \<Rightarrow> check_possible_names context names)"

fun check_search_names :: "ctx \<Rightarrow> string list \<Rightarrow> error option" where
  "check_search_names context [] = None"
| "check_search_names context (add_name # search_names) =
     (case check_possible_names context (used_names (module_node context) add_name) of
        Some e \<Rightarrow> Some e
      | None \<Rightarrow> check_search_names context search_names)"

text \<open>
  \<^verbatim>\<open>_check_array_additions\<close>. The set of added lazy values is returned as a list; it is
  empty whenever the function returns. The setting is written back only on the normal
  way out.
\<close>

definition check_array_additions_impl ::
  "env \<Rightarrow> settings \<Rightarrow> ctx \<Rightarrow> val \<Rightarrow> (error + lazy list) \<times> settings" where
  "check_array_additions_impl E S context sequence =
     (if \<not> dynamic_array_additions S \<or> root_is_compiled context then (Inr [], S)
      else
        let temp_param_add = dynamic_params_for_other_modules S;
            S1 = S\<lparr>dynamic_params_for_other_modules := False\<rparr>;
            is_list = (array_type E sequence = ''list'');
            search_names = (if is_list then [''append'', ''extend'', ''insert'']
                            else [''add'', ''update''])
        in case check_search_names context search_names of
             Some e \<Rightarrow> (Inl e, S1)
           | None \<Rightarrow> (Inr [], S1\<lparr>dynamic_params_for_other_modules := temp_param_add\<rparr>))"

definition check_array_additions ::
  "env \<Rightarrow> settings \<Rightarrow> ctx \<Rightarrow> val \<Rightarrow> (error + lazy list) \<times> settings" where
  "check_array_additions E S context sequence =
     (if array_type E sequence \<noteq> ''list'' \<and> array_type E sequence \<noteq> ''set''
      then (Inr [], S)
      else check_array_additions_impl E S context sequence)"

section \<open>Iterating a container\<close>

text \<open>
  \<^verbatim>\<open>py__iter__\<close> is a generator in the source; the model returns the list of everything
  it yields when run to its end, or the exception raised on the way.
\<close>

fun entry_lazy :: "ctx \<Rightarrow> entry \<Rightarrow> error + lazy" where
  "entry_lazy c (Elem node) =
     (if eq_str node '':'' \<or> node_type node = ''subscript''
      then Inr (LazyKnownValue (Slice c))
      else Inr (LazyTreeValue c node))"
| "entry_lazy c (KV k v) = Inl AttributeError"

fun entries_lazy :: "ctx \<Rightarrow> entry list \<Rightarrow> error + lazy list" where
  "entries_lazy c [] = Inr []"
| "entries_lazy c (x # xs) =
     (case entry_lazy c x of
        Inl e \<Rightarrow> Inl e
      | Inr l \<Rightarrow> (case entries_lazy c xs of Inl e \<Rightarrow> Inl e | Inr ls \<Rightarrow> Inr (l # ls)))"

text \<open>
  The dict branch: the union of the inferred keys, \<^verbatim>\<open>for k, _ in entries\<close>; an entry
  that is not a pair cannot be unpacked.
\<close>

fun dict_key_types :: "env \<Rightarrow> ctx \<Rightarrow> entry list \<Rightarrow> val fset \<Rightarrow> error + val fset" where
  "dict_key_types E c [] types = Inr types"
| "dict_key_types E c (KV k v # xs) types = dict_key_types E c xs (types |\<union>| infer_node E c k)"
| "dict_key_types E c (Elem n # xs) types = Inl TypeError"

fun py_iter :: "env \<Rightarrow> settings \<Rightarrow> val \<Rightarrow> error + lazy list"
  and merged_iter :: "env \<Rightarrow> settings \<Rightarrow> val list \<Rightarrow> error + lazy list" where
  "py_iter E S (SequenceLiteralValue t c atom) =
     (case get_tree_entries atom of
        Inl e \<Rightarrow> Inl e
      | Inr entries \<Rightarrow>
          if t = ''dict'' then
            (case dict_key_types E c entries {||} of
               Inl e \<Rightarrow> Inl e
             | Inr types \<Rightarrow> Inr (replicate (fcard types) (LazyKnownValues types)))
          else
            (case entries_lazy c entries of
               Inl e \<Rightarrow> Inl e
             | Inr ls \<Rightarrow>
                 (case fst (check_array_additions E S c (SequenceLiteralValue t c atom)) of
                    Inl e \<Rightarrow> Inl e
                  | Inr additions \<Rightarrow> Inr (ls @ additions))))"
| "py_iter E S (FakeSequence t lazy_value_list) = Inr lazy_value_list"
| "py_iter E S (MergedArray t arrays) = merged_iter E S arrays"
| "py_iter E S v = other_iter E v"
| "merged_iter E S [] = Inr []"
| "merged_iter E S (array # arrays) =
     (case py_iter E S array of
        Inl e \<Rightarrow> Inl e
      | Inr ls \<Rightarrow>
          (case merged_iter E S arrays of
             Inl e \<Rightarrow> Inl e
           | Inr ls' \<Rightarrow> Inr (ls @ ls')))"

section \<open>Indexing a literal\<close>

text \<open>
  The native equality behind \<^verbatim>\<open>execute_operation(index, '==')\<close>: Python's \<^verbatim>\<open>==\<close> on
  these objects, where a bool is the integer 0 or 1.
\<close>

fun int_value :: "simple \<Rightarrow> int option" where
  "int_value (PyInt n) = Some n"
| "int_value (PyBool b) = Some (if b then 1 else 0)"
| "int_value x = None"

definition native_eq :: "simple \<Rightarrow> simple \<Rightarrow> bool" where
  "native_eq a b =
     (case (int_value a, int_value b) of
        (Some x, Some y) \<Rightarrow> x = y
      | (None, None) \<Rightarrow> a = b
      | _ \<Rightarrow> False)"

text \<open>
  Only a compiled object has \<^verbatim>\<open>execute_operation\<close>; for any other value the attribute
  lookup fails and the key is passed over.
\<close>

fun key_equals :: "simple \<Rightarrow> val \<Rightarrow> bool" where
  "key_equals index (CompiledObject obj) = native_eq obj index"
| "key_equals index v = False"

text \<open>
  The loop over the entries of a dict literal. The inner loop over the inferred keys
  returns the same value set whichever key matches, so it is a test for some matching
  key.
\<close>

fun dict_getitem :: "env \<Rightarrow> ctx \<Rightarrow> entry list \<Rightarrow> simple \<Rightarrow> error + val fset" where
  "dict_getitem E c [] index = Inl SimpleGetItemNotFound"
| "dict_getitem E c (KV key value # entries) index =
     (if fBex (infer_node E c key) (key_equals index) then Inr (infer_node E c value)
      else dict_getitem E c entries index)"
| "dict_getitem E c (Elem n # entries) index = Inl TypeError"

text \<open>
  \<^verbatim>\<open>entries[index]\<close> on a Python list: an integer (or bool) index, negative ones counted
  from the end; anything else is a TypeError.
\<close>

definition list_getitem :: "'a list \<Rightarrow> simple \<Rightarrow> error + 'a" where
  "list_getitem entries index =
     (case int_value index of
        None \<Rightarrow> Inl TypeError
      | Some i \<Rightarrow>
          if 0 \<le> i then
            (if nat i < length entries then Inr (entries ! nat i) else Inl IndexError)
          else if nat (- i) \<le> length entries then
            Inr (entries ! (length entries - nat (- i)))
          else Inl IndexError)"

text \<open>
  \<^verbatim>\<open>reraise_getitem_errors(TypeError, KeyError, IndexError)\<close> turns these three into
  \<^verbatim>\<open>SimpleGetItemNotFound\<close>.
\<close>

fun reraise_getitem_errors :: "error + 'a \<Rightarrow> error + 'a" where
  "reraise_getitem_errors (Inl e) =
     (if e = TypeError \<or> e = KeyError \<or> e = IndexError then Inl SimpleGetItemNotFound
      else Inl e)"
| "reraise_getitem_errors (Inr x) = Inr x"

text \<open>\<^verbatim>\<open>py__simple_getitem__\<close> of a literal, a synthetic sequence and a merged array.\<close>

fun py_simple_getitem :: "env \<Rightarrow> settings \<Rightarrow> val \<Rightarrow> simple \<Rightarrow> error + val fset" where
  "py_simple_getitem E S (SequenceLiteralValue t c atom) index =
     (if t = ''dict'' then
        (case get_tree_entries atom of
           Inl e \<Rightarrow> Inl e
         | Inr entries \<Rightarrow> dict_getitem E c entries index)
      else if index = PySlice then Inr {|SequenceLiteralValue t c atom|}
      else
        (case reraise_getitem_errors
                (case get_tree_entries atom of
                   Inl e \<Rightarrow> Inl e
                 | Inr entries \<Rightarrow> list_getitem entries index) of
           Inl e \<Rightarrow> Inl e
         | Inr (Elem node) \<Rightarrow> Inr (infer_node E c node)
         | Inr (KV k v) \<Rightarrow> Inl AttributeError))"
| "py_simple_getitem E S (FakeSequence t lazy_value_list) index =
     (if index = PySlice then Inr {|FakeSequence t lazy_value_list|}
      else
        (case reraise_getitem_errors (list_getitem lazy_value_list index) of
           Inl e \<Rightarrow> Inl e
         | Inr lazy_value \<Rightarrow> Inr (infer E lazy_value)))"
| "py_simple_getitem E S (MergedArray t arrays) index =
     (case py_iter E S (MergedArray t arrays) of
        Inl e \<Rightarrow> Inl e
      | Inr ls \<Rightarrow> Inr (from_sets (map (infer E) ls)))"
| "py_simple_getitem E S v index = other_getitem E v index"

section \<open>Executions: return values\<close>

text \<open>
  A node reached from the context's module node. A path that leaves the tree stands for
  \<^verbatim>\<open>None\<close>, on which every attribute access fails.
\<close>

definition node_of :: "ctx \<Rightarrow> path \<Rightarrow> error + node" where
  "node_of c p = (case node_at (module_node c) p of None \<Rightarrow> Inl AttributeError | Some n \<Rightarrow> Inr n)"

text \<open>\<^verbatim>\<open>compiled.builtin_from_name(inference_state, 'None')\<close>.\<close>

definition builtin_None :: val where
  "builtin_None = CompiledObject PyNone"

text \<open>
  \<^verbatim>\<open>FunctionExecutionContext._get_yield_lazy_value\<close>: a bare \<^verbatim>\<open>yield\<close> yields None, a
  \<^verbatim>\<open>yield from\<close> yields what its argument iterates to, any other yield its expression,
  lazily, in the context as it is now.
\<close>

definition get_yield_lazy_value :: "env \<Rightarrow> ctx \<Rightarrow> path \<Rightarrow> error + lazy list" where
  "get_yield_lazy_value E self yield_expr =
     (case node_of self yield_expr of
        Inl e \<Rightarrow> Inl e
      | Inr y \<Rightarrow>
          if node_type y = ''keyword'' then Inr [LazyKnownValue builtin_None]
          else
            (case children y of
               Inl e \<Rightarrow> Inl e
             | Inr cs \<Rightarrow>
                 if length cs < 2 then Inl IndexError
                 else
                   let node = cs ! 1 in
                   if node_type node = ''yield_arg'' then
                     (case children node of
                        Inl e \<Rightarrow> Inl e
                      | Inr ncs \<Rightarrow>
                          if length ncs < 2 then Inl IndexError
                          else iterate E (infer_node E self (ncs ! 1)))
                   else Inr [LazyTreeValue self node]))"

text \<open>
  What one statement adds to the value set in \<^verbatim>\<open>get_return_values\<close> when it is not
  unreachable: a return statement without children (the bare keyword) adds None, one with
  children the inference of its expression; with \<^verbatim>\<open>check_yields\<close>, a yield adds what
  its lazy values infer to.
\<close>

definition return_stmt_values :: "env \<Rightarrow> ctx \<Rightarrow> path \<Rightarrow> error + val fset" where
  "return_stmt_values E self r =
     (case node_of self r of
        Inl e \<Rightarrow> Inl e
      | Inr rn \<Rightarrow>
          (case children rn of
             Inl e \<Rightarrow> Inr {|builtin_None|}
           | Inr cs \<Rightarrow>
               if length cs < 2 then Inl IndexError
               else Inr (infer_node E self (cs ! 1))))"

definition yield_expr_values :: "env \<Rightarrow> ctx \<Rightarrow> path \<Rightarrow> error + val fset" where
  "yield_expr_values E self r =
     (case get_yield_lazy_value E self r of
        Inl e \<Rightarrow> Inl e
      | Inr ls \<Rightarrow> Inr (from_sets (map (infer E) ls)))"

text \<open>The loop over the return statements (or yields), with its \<^verbatim>\<open>break\<close>.\<close>

fun scan_returns :: "env \<Rightarrow> ctx \<Rightarrow> bool \<Rightarrow> path list \<Rightarrow> val fset \<Rightarrow> error + val fset" where
  "scan_returns E self check_yields [] value_set = Inr value_set"
| "scan_returns E self check_yields (r # returns) value_set =
     (let check = reachability_check E self (tree_node self) r in
      case (if check = UNREACHABLE then Inr value_set
            else
              (case (if check_yields then yield_expr_values E self r
                     else return_stmt_values E self r) of
                 Inl e \<Rightarrow> Inl e
               | Inr vs \<Rightarrow> Inr (value_set |\<union>| vs))) of
        Inl e \<Rightarrow> Inl e
      | Inr value_set' \<Rightarrow>
          if check = REACHABLE then Inr value_set'
          else scan_returns E self check_yields returns value_set')"

text \<open>
  \<^verbatim>\<open>FunctionExecutionContext.get_return_values\<close>, without its two decorators (the cache
  and the recursion guard, which live elsewhere and wrap this body).
\<close>

definition get_return_values :: "env \<Rightarrow> ctx \<Rightarrow> bool \<Rightarrow> error + val fset" where
  "get_return_values E self check_yields =
     (case node_of self (tree_node self) of
        Inl e \<Rightarrow> Inl e
      | Inr funcdef \<Rightarrow>
          if node_type funcdef = ''lambdef'' then
            (case children funcdef of
               Inl e \<Rightarrow> Inl e
             | Inr cs \<Rightarrow> if cs = [] then Inl IndexError else Inr (infer_node E self (last cs)))
          else if check_yields then
            scan_returns E self True (get_yield_exprs E (module_node self) (tree_node self)) {||}
          else
            let value_set = annotation_return_types E self in
            if value_set \<noteq> {||} then Inr value_set
            else
              (case execution_of self of
                 None \<Rightarrow> Inl AttributeError
               | Some (function_value, arguments) \<Rightarrow>
                   scan_returns E self False
                     (iter_return_stmts E (module_node self) (tree_node self))
                     (value_set |\<union>| docstring_return_types E function_value)))"

section \<open>Executions: yields\<close>

text \<open>
  \<^verbatim>\<open>tree.search_ancestor(node, *types)\<close>: the nearest proper ancestor whose type is one
  of the given ones, if any.
\<close>

fun search_ancestor :: "node \<Rightarrow> path \<Rightarrow> string list \<Rightarrow> path option" where
  "search_ancestor m p types =
     (if p = [] then None
      else
        (case node_at m (butlast p) of
           None \<Rightarrow> search_ancestor m (butlast p) types
         | Some n \<Rightarrow>
             if node_type n \<in> set types then Some (butlast p)
             else search_ancestor m (butlast p) types))"

text \<open>
  Modelled from the spec: \<^verbatim>\<open>parser_utils.for_stmt_defines_one_name\<close>, which is not
  among the sources: a for-loop with exactly one bound loop variable, that is, whose
  target (its second child) is a name.
\<close>

definition for_stmt_defines_one_name :: "node \<Rightarrow> error + bool" where
  "for_stmt_defines_one_name for_stmt =
     (case children for_stmt of
        Inl e \<Rightarrow> Inl e
      | Inr cs \<Rightarrow> if length cs < 2 then Inl IndexError else Inr (node_type (cs ! 1) = ''name''))"

text \<open>
  The three branches of the first loop of \<^verbatim>\<open>get_yield_lazy_values\<close>, for the ancestor
  found for a yield: a simple for-loop directly in the function, the function itself, or
  anything else. The parent of the ancestor is looked through a suite.
\<close>

datatype yield_place = SimpleFor | FunctionBody | Other

definition yield_place :: "ctx \<Rightarrow> path option \<Rightarrow> error + yield_place" where
  "yield_place self for_stmt =
     (case for_stmt of
        None \<Rightarrow> Inl AttributeError
      | Some f \<Rightarrow>
          if f = [] then Inl AttributeError
          else
            (case node_of self (butlast f) of
               Inl e \<Rightarrow> Inl e
             | Inr parent_node \<Rightarrow>
                 let parent =
                       (if node_type parent_node = ''suite''
                        then (if butlast f = [] then None else Some (butlast (butlast f)))
                        else Some (butlast f))
                 in
                 (case node_of self f of
                    Inl e \<Rightarrow> Inl e
                  | Inr for_node \<Rightarrow>
                      if node_type for_node = ''for_stmt'' \<and> parent = Some (tree_node self) then
                        (case for_stmt_defines_one_name for_node of
                           Inl e \<Rightarrow> Inl e
                         | Inr one_name \<Rightarrow>
                             if one_name then Inr SimpleFor
                             else if f = tree_node self then Inr FunctionBody
                             else Inr Other)
                      else if f = tree_node self then Inr FunctionBody
                      else Inr Other)))"

text \<open>
  The first loop: it builds \<^verbatim>\<open>yields_order\<close>, a list of groups, each a for-loop (or
  None) with its yields, and gives up (\<open>None\<close>) at the first yield in another place.
\<close>

fun order_yields ::
  "ctx \<Rightarrow> (path \<times> path option) list \<Rightarrow> (path option \<times> path list) list \<Rightarrow> path option \<Rightarrow>
   error + (path option \<times> path list) list option" where
  "order_yields self [] yields_order last_for_stmt = Inr (Some yields_order)"
| "order_yields self ((yield_expr, for_stmt) # for_parents) yields_order last_for_stmt =
     (case yield_place self for_stmt of
        Inl e \<Rightarrow> Inl e
      | Inr SimpleFor \<Rightarrow>
          if for_stmt = last_for_stmt then
            (if yields_order = [] then Inl IndexError
             else order_yields self for_parents
                    (butlast yields_order @
                       [(fst (last yields_order), snd (last yields_order) @ [yield_expr])])
                    for_stmt)
          else order_yields self for_parents (yields_order @ [(for_stmt, [yield_expr])]) for_stmt
      | Inr FunctionBody \<Rightarrow>
          order_yields self for_parents (yields_order @ [(None, [yield_expr])]) for_stmt
      | Inr Other \<Rightarrow> Inr None)"

text \<open>
  \<^verbatim>\<open>predefine_names(context, flow_scope, dct)\<close>: within its block the context has
  \<^verbatim>\<open>dct\<close> as the predefined names of the flow scope.
\<close>

fun predefine_names :: "ctx \<Rightarrow> path \<Rightarrow> (string \<times> val fset) list \<Rightarrow> ctx" where
  "predefine_names (Context m c t a p) flow_scope dct =
     Context m c t a ((flow_scope, dct) # filter (\<lambda>kv. fst kv \<noteq> flow_scope) p)"

text \<open>The lazy values of a list of yields, one yield after the other.\<close>

fun yields_lazy_values :: "env \<Rightarrow> ctx \<Rightarrow> path list \<Rightarrow> error + lazy list" where
  "yields_lazy_values E self [] = Inr []"
| "yields_lazy_values E self (yield_expr # yields) =
     (case get_yield_lazy_value E self yield_expr of
        Inl e \<Rightarrow> Inl e
      | Inr ls \<Rightarrow>
          (case yields_lazy_values E self yields of
             Inl e \<Rightarrow> Inl e
           | Inr ls' \<Rightarrow> Inr (ls @ ls')))"

text \<open>
  The loop over the iterations of a for-loop: the name of the loop variable is bound to
  what the iteration's lazy value infers to, and the yields of the loop are taken in the
  context with this binding.
\<close>

definition loop_variable :: "node \<Rightarrow> error + string" where
  "loop_variable for_node =
     (case children for_node of
        Inl e \<Rightarrow> Inl e
      | Inr cs \<Rightarrow>
          if length cs < 2 then Inl IndexError
          else (case cs ! 1 of
                  Leaf t v s e \<Rightarrow> Inr v
                | Node t ccs \<Rightarrow> Inl AttributeError))"

fun for_iterations ::
  "env \<Rightarrow> ctx \<Rightarrow> path \<Rightarrow> node \<Rightarrow> path list \<Rightarrow> lazy list \<Rightarrow> error + lazy list" where
  "for_iterations E self for_stmt for_node yields [] = Inr []"
| "for_iterations E self for_stmt for_node yields (lazy_value # ordered) =
     (case loop_variable for_node of
        Inl e \<Rightarrow> Inl e
      | Inr x \<Rightarrow>
          let dct = [(x, infer E lazy_value)] in
          (case yields_lazy_values E (predefine_names self for_stmt dct) yields of
             Inl e \<Rightarrow> Inl e
           | Inr ls \<Rightarrow>
               (case for_iterations E self for_stmt for_node yields ordered of
                  Inl e \<Rightarrow> Inl e
                | Inr ls' \<Rightarrow> Inr (ls @ ls'))))"

text \<open>\<^verbatim>\<open>for_stmt.get_testlist()\<close>: the fourth child, what the loop iterates over.\<close>

definition get_testlist :: "node \<Rightarrow> error + node" where
  "get_testlist for_node =
     (case children for_node of
        Inl e \<Rightarrow> Inl e
      | Inr cs \<Rightarrow> if length cs < 4 then Inl IndexError else Inr (cs ! 3))"

text \<open>The second loop, over the groups.\<close>

fun emit_yields :: "env \<Rightarrow> ctx \<Rightarrow> (path option \<times> path list) list \<Rightarrow> error + lazy list" where
  "emit_yields E self [] = Inr []"
| "emit_yields E self ((None, yields) # yields_order) =
     (case yields_lazy_values E self yields of
        Inl e \<Rightarrow> Inl e
      | Inr ls \<Rightarrow>
          (case emit_yields E self yields_order of
             Inl e \<Rightarrow> Inl e
           | Inr ls' \<Rightarrow> Inr (ls @ ls')))"
| "emit_yields E self ((Some for_stmt, yields) # yields_order) =
     (case node_of self for_stmt of
        Inl e \<Rightarrow> Inl e
      | Inr for_node \<Rightarrow>
          (case get_testlist for_node of
             Inl e \<Rightarrow> Inl e
           | Inr input_node \<Rightarrow>
               (case iterate E (infer_node E self input_node) of
                  Inl e \<Rightarrow> Inl e
                | Inr ordered \<Rightarrow>
                    (case for_iterations E self for_stmt for_node yields ordered of
                       Inl e \<Rightarrow> Inl e
                     | Inr ls \<Rightarrow>
                         (case emit_yields E self yields_order of
                            Inl e \<Rightarrow> Inl e
                          | Inr ls' \<Rightarrow> Inr (ls @ ls'))))))"

text \<open>
  \<^verbatim>\<open>FunctionExecutionContext.get_yield_lazy_values\<close>, without its decorator (the
  recursion guard), and \<^verbatim>\<open>merge_yield_values\<close>.
\<close>

definition for_parents :: "env \<Rightarrow> ctx \<Rightarrow> (path \<times> path option) list" where
  "for_parents E self =
     map (\<lambda>y. (y, search_ancestor (module_node self) y
                     [''for_stmt'', ''funcdef'', ''while_stmt'', ''if_stmt'']))
       (get_yield_exprs E (module_node self) (tree_node self))"

definition get_yield_lazy_values :: "env \<Rightarrow> ctx \<Rightarrow> error + lazy list" where
  "get_yield_lazy_values E self =
     (case order_yields self (for_parents E self) [] None of
        Inl e \<Rightarrow> Inl e
      | Inr None \<Rightarrow>
          (case get_return_values E self True of
             Inl e \<Rightarrow> Inl e
           | Inr types \<Rightarrow> if types \<noteq> {||} then Inr [LazyKnownValues types] else Inr [])
      | Inr (Some yields_order) \<Rightarrow> emit_yields E self yields_order)"

definition merge_yield_values :: "env \<Rightarrow> ctx \<Rightarrow> error + val fset" where
  "merge_yield_values E self =
     (case get_yield_lazy_values E self of
        Inl e \<Rightarrow> Inl e
      | Inr ls \<Rightarrow> Inr (from_sets (map (infer E) ls)))"

section \<open>Functions and overloads\<close>

text \<open>
  \<^verbatim>\<open>FunctionMixin.get_function_execution\<close>: a fresh execution context of the function
  with the arguments, in the module of the function's parent context, with no predefined
  names. Only function values have it.
\<close>

fun get_function_execution :: "val \<Rightarrow> lazy list \<Rightarrow> error + ctx" where
  "get_function_execution (FunctionValue parent_context funcdef) arguments =
     Inr (Context (module_node parent_context) (root_is_compiled parent_context) funcdef
            (Some (FunctionValue parent_context funcdef, arguments)) [])"
| "get_function_execution v arguments = Inl AttributeError"

text \<open>\<^verbatim>\<open>FunctionExecutionContext.matches_signature\<close>, without its debug output.\<close>

definition matches_signature :: "env \<Rightarrow> ctx \<Rightarrow> bool" where
  "matches_signature E self =
     (case executed_params_and_issues E self of
        (executed_params, issues) \<Rightarrow>
          if issues \<noteq> [] then False else list_all (\<lambda>matches. matches) executed_params)"

text \<open>
  \<^verbatim>\<open>FunctionExecutionContext.infer\<close>. The version is compared as Python compares
  tuples.
\<close>

definition execution_infer :: "env \<Rightarrow> ctx \<Rightarrow> error + val fset" where
  "execution_infer E self =
     (if tree_node self = [] then Inl AttributeError
      else
        (case node_of self (butlast (tree_node self)) of
           Inl e \<Rightarrow> Inl e
         | Inr parent \<Rightarrow>
             let is_coroutine = (node_type parent \<in> {''async_stmt'', ''async_funcdef''});
                 is_generator = (get_yield_exprs E (module_node self) (tree_node self) \<noteq> [])
             in
             if is_coroutine then
               (if is_generator then
                  (if pos_less (version_info E) (3, 6) then Inr {||}
                   else
                     (case merge_yield_values E self of
                        Inl e \<Rightarrow> Inl e
                      | Inr yield_values \<Rightarrow> Inr (async_generator_of E yield_values)))
                else
                  (if pos_less (version_info E) (3, 5) then Inr {||}
                   else
                     (case get_return_values E self False of
                        Inl e \<Rightarrow> Inl e
                      | Inr return_values \<Rightarrow> Inr (coroutine_of E return_values))))
             else if is_generator then Inr {|Generator self|}
             else get_return_values E self False))"

text \<open>\<^verbatim>\<open>ValueSet.from_sets(fe.infer() for fe in function_executions)\<close>.\<close>

fun infer_executions :: "env \<Rightarrow> ctx list \<Rightarrow> error + val fset" where
  "infer_executions E [] = Inr {||}"
| "infer_executions E (fe # function_executions) =
     (case execution_infer E fe of
        Inl e \<Rightarrow> Inl e
      | Inr vs \<Rightarrow>
          (case infer_executions E function_executions of
             Inl e \<Rightarrow> Inl e
           | Inr vs' \<Rightarrow> Inr (vs |\<union>| vs')))"

text \<open>
  The loop of \<^verbatim>\<open>OverloadedFunctionValue.py__call__\<close> and what follows it. The flag
  \<^verbatim>\<open>matched\<close> is set only right before the return inside the loop, so it is false
  whenever the loop ends.
\<close>

fun overloaded_call :: "env \<Rightarrow> val list \<Rightarrow> lazy list \<Rightarrow> ctx list \<Rightarrow> error + val fset" where
  "overloaded_call E [] arguments function_executions =
     (if is_analysis E then Inr {||} else infer_executions E function_executions)"
| "overloaded_call E (f # overloaded_functions) arguments function_executions =
     (case get_function_execution f arguments of
        Inl e \<Rightarrow> Inl e
      | Inr function_execution \<Rightarrow>
          if matches_signature E function_execution then execution_infer E function_execution
          else overloaded_call E overloaded_functions arguments
                 (function_executions @ [function_execution]))"

text \<open>\<^verbatim>\<open>py__call__\<close> of a function value and of an overloaded function value.\<close>

fun py_call :: "env \<Rightarrow> val \<Rightarrow> lazy list \<Rightarrow> error + val fset" where
  "py_call E (OverloadedFunctionValue function overloaded_functions) arguments =
     overloaded_call E overloaded_functions arguments []"
| "py_call E f arguments =
     (case get_function_execution f arguments of
        Inl e \<Rightarrow> Inl e
      | Inr function_execution \<Rightarrow> execution_infer E function_execution)"

text \<open>
  \<^verbatim>\<open>_is_overload_decorated\<close>: the definition's parent is a \<^verbatim>\<open>decorated\<close> node one of
  whose decorators is the name \<^verbatim>\<open>overload\<close>.
\<close>

fun decorator_is_overload :: "node \<Rightarrow> error + bool" where
  "decorator_is_overload decorator =
     (case children decorator of
        Inl e \<Rightarrow> Inl e
      | Inr cs \<Rightarrow>
          if length cs < 2 then Inl IndexError
          else (case cs ! 1 of
                  Leaf t v s e \<Rightarrow> Inr (t = ''name'' \<and> v = ''overload'')
                | Node t ccs \<Rightarrow> Inr False))"

fun some_decorator_is_overload :: "node list \<Rightarrow> error + bool" where
  "some_decorator_is_overload [] = Inr False"
| "some_decorator_is_overload (decorator # decorators) =
     (case decorator_is_overload decorator of
        Inl e \<Rightarrow> Inl e
      | Inr True \<Rightarrow> Inr True
      | Inr False \<Rightarrow> some_decorator_is_overload decorators)"

definition is_overload_decorated :: "node \<Rightarrow> path \<Rightarrow> error + bool" where
  "is_overload_decorated m funcdef =
     (if funcdef = [] then Inl AttributeError
      else
        (case node_at m (butlast funcdef) of
           None \<Rightarrow> Inl AttributeError
         | Some parent \<Rightarrow>
             if node_type parent = ''decorated'' then
               (case children parent of
                  Inl e \<Rightarrow> Inl e
                | Inr [] \<Rightarrow> Inl IndexError
                | Inr (decorators # cs) \<Rightarrow>
                    if node_type decorators = ''decorator''
                    then some_decorator_is_overload [decorators]
                    else (case children decorators of
                            Inl e \<Rightarrow> Inl e
                          | Inr ds \<Rightarrow> some_decorator_is_overload ds))
             else Inr False))"

text \<open>
  The loop over the names the filter found: every name whose parent is an overload
  decorated function definition is yielded, and the last of them becomes the definition
  to search from.
\<close>

fun overloads_among :: "node \<Rightarrow> path list \<Rightarrow> error + path list" where
  "overloads_among m [] = Inr []"
| "overloads_among m (name # names) =
     (if name = [] then Inl AttributeError
      else
        (case node_at m (butlast name) of
           None \<Rightarrow> Inl AttributeError
         | Some funcdef \<Rightarrow>
             (case (if node_type funcdef = ''funcdef'' then is_overload_decorated m (butlast name)
                    else Inr False) of
                Inl e \<Rightarrow> Inl e
              | Inr is_overload \<Rightarrow>
                  (case overloads_among m names of
                     Inl e \<Rightarrow> Inl e
                   | Inr found \<Rightarrow>
                       Inr (if is_overload then butlast name # found else found)))))"

text \<open>
  The name of a function definition, \<^verbatim>\<open>tree_node.name.value\<close>: the value of its second
  child.
\<close>

definition funcdef_name :: "node \<Rightarrow> error + string" where
  "funcdef_name funcdef =
     (case children funcdef of
        Inl e \<Rightarrow> Inl e
      | Inr cs \<Rightarrow>
          if length cs < 2 then Inl IndexError
          else (case cs ! 1 of
                  Leaf t v s e \<Rightarrow> Inr v
                | Node t ccs \<Rightarrow> Inl AttributeError))"

text \<open>
  The \<^verbatim>\<open>while True\<close> loop of \<^verbatim>\<open>_find_overload_functions\<close>. It ends when the filter
  finds no name before the current definition or none of the names found is an overload;
  whether it ends depends on the filter, so the loop is given fuel and returns \<open>None\<close>
  when the fuel runs out.
\<close>

fun find_overload_loop :: "nat \<Rightarrow> env \<Rightarrow> ctx \<Rightarrow> path \<Rightarrow> (error + path list) option" where
  "find_overload_loop 0 E context def_path = None"
| "find_overload_loop (Suc fuel) E context def_path =
     (case node_at (module_node context) def_path of
        None \<Rightarrow> Some (Inl AttributeError)
      | Some funcdef \<Rightarrow>
          (case start_pos funcdef of
             Inl e \<Rightarrow> Some (Inl e)
           | Inr until_position \<Rightarrow>
               (case funcdef_name funcdef of
                  Inl e \<Rightarrow> Some (Inl e)
                | Inr x \<Rightarrow>
                    let names = filter_get E context until_position x in
                    if names = [] then Some (Inr [])
                    else
                      (case overloads_among (module_node context) names of
                         Inl e \<Rightarrow> Some (Inl e)
                       | Inr found \<Rightarrow>
                           if found = [] then Some (Inr [])
                           else
                             (case find_overload_loop fuel E context (last found) of
                                None \<Rightarrow> None
                              | Some (Inl e) \<Rightarrow> Some (Inl e)
                              | Some (Inr later) \<Rightarrow> Some (Inr (found @ later)))))))"

definition find_overload_functions ::
  "nat \<Rightarrow> env \<Rightarrow> ctx \<Rightarrow> path \<Rightarrow> (error + path list) option" where
  "find_overload_functions fuel E context def_path =
     (case node_at (module_node context) def_path of
        None \<Rightarrow> Some (Inl AttributeError)
      | Some funcdef \<Rightarrow>
          if node_type funcdef = ''lambdef'' then Some (Inr [])
          else
            (case is_overload_decorated (module_node context) def_path of
               Inl e \<Rightarrow> Some (Inl e)
             | Inr decorated \<Rightarrow>
                 (case find_overload_loop fuel E context def_path of
                    None \<Rightarrow> None
                  | Some (Inl e) \<Rightarrow> Some (Inl e)
                  | Some (Inr later) \<Rightarrow>
                      Some (Inr ((if decorated then [def_path] else []) @ later)))))"

text \<open>
  \<^verbatim>\<open>FunctionValue.from_context\<close> for a context that is neither a class nor an instance
  (the contexts here are modules and executions): the parent context is the context
  itself and every function created is a plain function value.
\<close>

definition from_context :: "nat \<Rightarrow> env \<Rightarrow> ctx \<Rightarrow> path \<Rightarrow> (error + val) option" where
  "from_context fuel E context def_path =
     (case find_overload_functions fuel E context def_path of
        None \<Rightarrow> None
      | Some (Inl e) \<Rightarrow> Some (Inl e)
      | Some (Inr overloaded_funcs) \<Rightarrow>
          let function = FunctionValue context def_path in
          if overloaded_funcs \<noteq> []
          then Some (Inr (OverloadedFunctionValue function
                            (map (FunctionValue context) overloaded_funcs)))
          else Some (Inr function))"

section \<open>A small inference for the examples\<close>

text \<open>
  The examples below need some inference of nodes. This one knows number and string
  leaves and list, set and tuple displays, and looks a name up in the names predefined
  for the context; it knows nothing else.
\<close>

definition number_of :: "string \<Rightarrow> int" where
  "number_of v = int (foldl (\<lambda>a c. 10 * a + (of_char c - 48)) 0 v)"

fun lookup_predefined :: "(path \<times> (string \<times> val fset) list) list \<Rightarrow> string \<Rightarrow> val fset" where
  "lookup_predefined [] x = {||}"
| "lookup_predefined ((flow, dct) # rest) x =
     (case map_of dct x of Some vs \<Rightarrow> vs | None \<Rightarrow> lookup_predefined rest x)"

definition unquote :: "string \<Rightarrow> string" where
  "unquote v = butlast (tl v)"

fun example_infer_node :: "ctx \<Rightarrow> node \<Rightarrow> val fset" where
  "example_infer_node c (Leaf t v s e) =
     (if t = ''number'' then {|CompiledObject (PyInt (number_of v))|}
      else if t = ''string'' then {|CompiledObject (PyStr (unquote v))|}
      else if t = ''name'' then lookup_predefined (predefined_names c) v
      else {||})"
| "example_infer_node c (Node t cs) =
     (if t = ''atom'' then
        (case new_SequenceLiteralValue c (Node t cs) of
           Inl e \<Rightarrow> {||}
         | Inr v \<Rightarrow> {|v|})
      else {||})"

section \<open>Example trees\<close>

text \<open>A module context for a module node.\<close>

definition module_context :: "node \<Rightarrow> ctx" where
  "module_context m = Context m False [] None []"

text \<open>The display \<^verbatim>\<open>{"a": 1, "a": 2}\<close>.\<close>

definition dict_a1_a2 :: node where
  "dict_a1_a2 =
     Node ''atom''
       [Leaf ''operator'' ''{'' (1, 0) (1, 1),
        Node ''dictorsetmaker''
          [Leaf ''string'' (CHR 0x22 # ''a'' @ [CHR 0x22]) (1, 1) (1, 4),
           Leaf ''operator'' '':'' (1, 4) (1, 5),
           Leaf ''number'' ''1'' (1, 6) (1, 7),
           Leaf ''operator'' '','' (1, 7) (1, 8),
           Leaf ''string'' (CHR 0x22 # ''a'' @ [CHR 0x22]) (1, 9) (1, 12),
           Leaf ''operator'' '':'' (1, 12) (1, 13),
           Leaf ''number'' ''2'' (1, 14) (1, 15)],
        Leaf ''operator'' ''}'' (1, 15) (1, 16)]"

text \<open>The display \<^verbatim>\<open>{x: 1}\<close>.\<close>

definition dict_x1 :: node where
  "dict_x1 =
     Node ''atom''
       [Leaf ''operator'' ''{'' (1, 0) (1, 1),
        Node ''dictorsetmaker''
          [Leaf ''name'' ''x'' (1, 1) (1, 2),
           Leaf ''operator'' '':'' (1, 2) (1, 3),
           Leaf ''number'' ''1'' (1, 4) (1, 5)],
        Leaf ''operator'' ''}'' (1, 5) (1, 6)]"

section \<open>Example modules for the scan of array additions\<close>

text \<open>The module
  \<^verbatim>\<open>a = []\<close>
  \<^verbatim>\<open>a.append(1)\<close>
  \<^verbatim>\<open>a.append("x")\<close>
  \<^verbatim>\<open>a\<close>\<close>

definition module_append :: node where
  "module_append =
     Node ''file_input''
       [Node ''simple_stmt''
          [Node ''expr_stmt''
             [Leaf ''name'' ''a'' (1, 0) (1, 1),
              Leaf ''operator'' ''='' (1, 2) (1, 3),
              Node ''atom''
                [Leaf ''operator'' ''['' (1, 4) (1, 5),
                 Leaf ''operator'' '']'' (1, 5) (1, 6)]],
           Leaf ''newline'' [CHR 0x0A] (1, 6) (2, 0)],
        Node ''simple_stmt''
          [Node ''atom_expr''
             [Leaf ''name'' ''a'' (2, 0) (2, 1),
              Node ''trailer''
                [Leaf ''operator'' ''.'' (2, 1) (2, 2),
                 Leaf ''name'' ''append'' (2, 2) (2, 8)],
              Node ''trailer''
                [Leaf ''operator'' ''('' (2, 8) (2, 9),
                 Leaf ''number'' ''1'' (2, 9) (2, 10),
                 Leaf ''operator'' '')'' (2, 10) (2, 11)]],
           Leaf ''newline'' [CHR 0x0A] (2, 11) (3, 0)],
        Node ''simple_stmt''
          [Node ''atom_expr''
             [Leaf ''name'' ''a'' (3, 0) (3, 1),
              Node ''trailer''
                [Leaf ''operator'' ''.'' (3, 1) (3, 2),
                 Leaf ''name'' ''append'' (3, 2) (3, 8)],
              Node ''trailer''
                [Leaf ''operator'' ''('' (3, 8) (3, 9),
                 Leaf ''string'' [CHR 0x22, CHR ''x'', CHR 0x22] (3, 9) (3, 12),
                 Leaf ''operator'' '')'' (3, 12) (3, 13)]],
           Leaf ''newline'' [CHR 0x0A] (3, 13) (4, 0)],
        Node ''simple_stmt''
          [Leaf ''name'' ''a'' (4, 0) (4, 1),
           Leaf ''newline'' [CHR 0x0A] (4, 1) (5, 0)],
        Leaf ''endmarker'' '''' (5, 0) (5, 0)]"

text \<open>The module
  \<^verbatim>\<open>a = []\<close>
  \<^verbatim>\<open>a.append(a)\<close>\<close>

definition module_append_self :: node where
  "module_append_self =
     Node ''file_input''
       [Node ''simple_stmt''
          [Node ''expr_stmt''
             [Leaf ''name'' ''a'' (1, 0) (1, 1),
              Leaf ''operator'' ''='' (1, 2) (1, 3),
              Node ''atom''
                [Leaf ''operator'' ''['' (1, 4) (1, 5),
                 Leaf ''operator'' '']'' (1, 5) (1, 6)]],
           Leaf ''newline'' [CHR 0x0A] (1, 6) (2, 0)],
        Node ''simple_stmt''
          [Node ''atom_expr''
             [Leaf ''name'' ''a'' (2, 0) (2, 1),
              Node ''trailer''
                [Leaf ''operator'' ''.'' (2, 1) (2, 2),
                 Leaf ''name'' ''append'' (2, 2) (2, 8)],
              Node ''trailer''
                [Leaf ''operator'' ''('' (2, 8) (2, 9),
                 Leaf ''name'' ''a'' (2, 9) (2, 10),
                 Leaf ''operator'' '')'' (2, 10) (2, 11)]],
           Leaf ''newline'' [CHR 0x0A] (2, 11) (3, 0)],
        Leaf ''endmarker'' '''' (3, 0) (3, 0)]"

text \<open>The module
  \<^verbatim>\<open>s = {0}\<close>
  \<^verbatim>\<open>s.add(1)\<close>\<close>

definition module_set_add :: node where
  "module_set_add =
     Node ''file_input''
       [Node ''simple_stmt''
          [Node ''expr_stmt''
             [Leaf ''name'' ''s'' (1, 0) (1, 1),
              Leaf ''operator'' ''='' (1, 2) (1, 3),
              Node ''atom''
                [Leaf ''operator'' ''{'' (1, 4) (1, 5),
                 Leaf ''number'' ''0'' (1, 5) (1, 6),
                 Leaf ''operator'' ''}'' (1, 6) (1, 7)]],
           Leaf ''newline'' [CHR 0x0A] (1, 7) (2, 0)],
        Node ''simple_stmt''
          [Node ''atom_expr''
             [Leaf ''name'' ''s'' (2, 0) (2, 1),
              Node ''trailer''
                [Leaf ''operator'' ''.'' (2, 1) (2, 2),
                 Leaf ''name'' ''add'' (2, 2) (2, 5)],
              Node ''trailer''
                [Leaf ''operator'' ''('' (2, 5) (2, 6),
                 Leaf ''number'' ''1'' (2, 6) (2, 7),
                 Leaf ''operator'' '')'' (2, 7) (2, 8)]],
           Leaf ''newline'' [CHR 0x0A] (2, 8) (3, 0)],
        Leaf ''endmarker'' '''' (3, 0) (3, 0)]"

text \<open>The module
  \<^verbatim>\<open>a = []\<close>
  \<^verbatim>\<open>a\<close>\<close>

definition module_no_append :: node where
  "module_no_append =
     Node ''file_input''
       [Node ''simple_stmt''
          [Node ''expr_stmt''
             [Leaf ''name'' ''a'' (1, 0) (1, 1),
              Leaf ''operator'' ''='' (1, 2) (1, 3),
              Node ''atom''
                [Leaf ''operator'' ''['' (1, 4) (1, 5),
                 Leaf ''operator'' '']'' (1, 5) (1, 6)]],
           Leaf ''newline'' [CHR 0x0A] (1, 6) (2, 0)],
        Node ''simple_stmt''
          [Leaf ''name'' ''a'' (2, 0) (2, 1),
           Leaf ''newline'' [CHR 0x0A] (2, 1) (3, 0)],
        Leaf ''endmarker'' '''' (3, 0) (3, 0)]"


text \<open>The empty list display at the start of the first line, and the set display.\<close>

definition empty_list_atom :: node where
  "empty_list_atom =
     Node ''atom'' [Leaf ''operator'' ''['' (1, 4) (1, 5), Leaf ''operator'' '']'' (1, 5) (1, 6)]"

definition set_atom :: node where
  "set_atom =
     Node ''atom''
       [Leaf ''operator'' ''{'' (1, 4) (1, 5),
        Leaf ''number'' ''0'' (1, 5) (1, 6),
        Leaf ''operator'' ''}'' (1, 6) (1, 7)]"

section \<open>Example collaborators for functions\<close>

text \<open>
  The return statements of a function definition, as the syntax tree provider scans
  them: return statements and bare \<^verbatim>\<open>return\<close> keywords among the children, and
  recursively in the children that are suites, simple statements or flow statements.
\<close>

definition RETURN_STMT_CONTAINERS :: "string list" where
  "RETURN_STMT_CONTAINERS =
     [''suite'', ''simple_stmt'', ''if_stmt'', ''while_stmt'', ''for_stmt'', ''try_stmt'',
      ''with_stmt'', ''async_stmt'']"

fun is_return :: "node \<Rightarrow> bool" where
  "is_return (Leaf t v s e) = (t = ''keyword'' \<and> v = ''return'')"
| "is_return (Node t cs) = (t = ''return_stmt'')"

fun return_stmts_in :: "node \<Rightarrow> path list"
  and return_stmts_children :: "nat \<Rightarrow> node list \<Rightarrow> path list" where
  "return_stmts_in (Leaf t v s e) = []"
| "return_stmts_in (Node t cs) = return_stmts_children 0 cs"
| "return_stmts_children i [] = []"
| "return_stmts_children i (c # cs) =
     (if is_return c then [[i]] else []) @
     (if node_type c \<in> set RETURN_STMT_CONTAINERS then map ((#) i) (return_stmts_in c) else []) @
     return_stmts_children (Suc i) cs"

definition example_iter_return_stmts :: "node \<Rightarrow> path \<Rightarrow> path list" where
  "example_iter_return_stmts m funcdef =
     (case node_at m funcdef of None \<Rightarrow> [] | Some n \<Rightarrow> map ((@) funcdef) (return_stmts_in n))"

text \<open>
  The yield expressions of a function definition: every \<^verbatim>\<open>yield\<close> keyword outside
  nested definitions, as its \<^verbatim>\<open>yield_expr\<close> parent when it has one.
\<close>

fun yields_in :: "path \<Rightarrow> node \<Rightarrow> path list"
  and yields_children :: "path \<Rightarrow> string \<Rightarrow> nat \<Rightarrow> node list \<Rightarrow> path list" where
  "yields_in q (Leaf t v s e) = []"
| "yields_in q (Node t cs) = yields_children q t 0 cs"
| "yields_children q pt i [] = []"
| "yields_children q pt i (c # cs) =
     (if node_type c \<in> {''classdef'', ''funcdef'', ''lambdef''} then []
      else
        (case c of
           Leaf t v s e \<Rightarrow>
             (if v = ''yield'' then [if pt = ''yield_expr'' then q else q @ [i]] else [])
         | Node t ccs \<Rightarrow> yields_in (q @ [i]) c)) @
     yields_children q pt (Suc i) cs"

definition example_get_yield_exprs :: "node \<Rightarrow> path \<Rightarrow> path list" where
  "example_get_yield_exprs m funcdef =
     (case node_at m funcdef of None \<Rightarrow> [] | Some n \<Rightarrow> yields_in funcdef n)"

text \<open>
  A reachability check that knows no conditions: a statement under an \<^verbatim>\<open>if\<close>,
  \<^verbatim>\<open>while\<close> or \<^verbatim>\<open>try\<close> of the function is unsure, any other is reachable.
\<close>

definition example_reachability_check :: "ctx \<Rightarrow> path \<Rightarrow> path \<Rightarrow> reach" where
  "example_reachability_check c funcdef r =
     (if list_ex
           (\<lambda>n. case node_at (module_node c) (take n r) of
                  None \<Rightarrow> False
                | Some x \<Rightarrow> node_type x \<in> {''if_stmt'', ''while_stmt'', ''try_stmt''})
           [Suc (length funcdef)..<length r]
      then UNSURE else REACHABLE)"

text \<open>The execution of the function defined at a path of a module, without arguments.\<close>

definition execution_at :: "node \<Rightarrow> path \<Rightarrow> ctx" where
  "execution_at m funcdef =
     Context m False funcdef (Some (FunctionValue (module_context m) funcdef, [])) []"

text \<open>The module
  \<^verbatim>\<open>def f(x):\<close>
  \<^verbatim>\<open>    if x:\<close>
  \<^verbatim>\<open>        return 1\<close>
  \<^verbatim>\<open>    return "a"\<close>
  \<^verbatim>\<open>    return 2\<close>\<close>

definition module_returns :: node where
  "module_returns =
     Node ''file_input''
       [Node ''funcdef''
          [Leaf ''keyword'' ''def'' (1, 0) (1, 3),
           Leaf ''name'' ''f'' (1, 4) (1, 5),
           Node ''parameters''
             [Leaf ''operator'' ''('' (1, 5) (1, 6),
              Node ''param''
                [Leaf ''name'' ''x'' (1, 6) (1, 7)],
              Leaf ''operator'' '')'' (1, 7) (1, 8)],
           Leaf ''operator'' '':'' (1, 8) (1, 9),
           Node ''suite''
             [Leaf ''newline'' [CHR 0x0A] (1, 9) (2, 0),
              Node ''if_stmt''
                [Leaf ''keyword'' ''if'' (2, 4) (2, 6),
                 Leaf ''name'' ''x'' (2, 7) (2, 8),
                 Leaf ''operator'' '':'' (2, 8) (2, 9),
                 Node ''suite''
                   [Leaf ''newline'' [CHR 0x0A] (2, 9) (3, 0),
                    Node ''simple_stmt''
                      [Node ''return_stmt''
                         [Leaf ''keyword'' ''return'' (3, 8) (3, 14),
                          Leaf ''number'' ''1'' (3, 15) (3, 16)],
                       Leaf ''newline'' [CHR 0x0A] (3, 16) (4, 0)]]],
              Node ''simple_stmt''
                [Node ''return_stmt''
                   [Leaf ''keyword'' ''return'' (4, 4) (4, 10),
                    Leaf ''string'' [CHR 0x22, CHR ''a'', CHR 0x22] (4, 11) (4, 14)],
                 Leaf ''newline'' [CHR 0x0A] (4, 14) (5, 0)],
              Node ''simple_stmt''
                [Node ''return_stmt''
                   [Leaf ''keyword'' ''return'' (5, 4) (5, 10),
                    Leaf ''number'' ''2'' (5, 11) (5, 12)],
                 Leaf ''newline'' [CHR 0x0A] (5, 12) (6, 0)]]],
        Leaf ''endmarker'' '''' (6, 0) (6, 0)]"

text \<open>The module
  \<^verbatim>\<open>def f(x):\<close>
  \<^verbatim>\<open>    if x:\<close>
  \<^verbatim>\<open>        return\<close>
  \<^verbatim>\<open>    return 1\<close>\<close>

definition module_bare_return :: node where
  "module_bare_return =
     Node ''file_input''
       [Node ''funcdef''
          [Leaf ''keyword'' ''def'' (1, 0) (1, 3),
           Leaf ''name'' ''f'' (1, 4) (1, 5),
           Node ''parameters''
             [Leaf ''operator'' ''('' (1, 5) (1, 6),
              Node ''param''
                [Leaf ''name'' ''x'' (1, 6) (1, 7)],
              Leaf ''operator'' '')'' (1, 7) (1, 8)],
           Leaf ''operator'' '':'' (1, 8) (1, 9),
           Node ''suite''
             [Leaf ''newline'' [CHR 0x0A] (1, 9) (2, 0),
              Node ''if_stmt''
                [Leaf ''keyword'' ''if'' (2, 4) (2, 6),
                 Leaf ''name'' ''x'' (2, 7) (2, 8),
                 Leaf ''operator'' '':'' (2, 8) (2, 9),
                 Node ''suite''
                   [Leaf ''newline'' [CHR 0x0A] (2, 9) (3, 0),
                    Node ''simple_stmt''
                      [Leaf ''keyword'' ''return'' (3, 8) (3, 14),
                       Leaf ''newline'' [CHR 0x0A] (3, 14) (4, 0)]]],
              Node ''simple_stmt''
                [Node ''return_stmt''
                   [Leaf ''keyword'' ''return'' (4, 4) (4, 10),
                    Leaf ''number'' ''1'' (4, 11) (4, 12)],
                 Leaf ''newline'' [CHR 0x0A] (4, 12) (5, 0)]]],
        Leaf ''endmarker'' '''' (5, 0) (5, 0)]"



text \<open>The module
  \<^verbatim>\<open>def s():\<close>
  \<^verbatim>\<open>    yield 1\<close>
  \<^verbatim>\<open>    yield 2\<close>\<close>

definition module_two_yields :: node where
  "module_two_yields =
     Node ''file_input''
       [Node ''funcdef''
          [Leaf ''keyword'' ''def'' (1, 0) (1, 3),
           Leaf ''name'' ''s'' (1, 4) (1, 5),
           Node ''parameters''
             [Leaf ''operator'' ''('' (1, 5) (1, 6),
              Leaf ''operator'' '')'' (1, 6) (1, 7)],
           Leaf ''operator'' '':'' (1, 7) (1, 8),
           Node ''suite''
             [Leaf ''newline'' [CHR 0x0A] (1, 8) (2, 0),
              Node ''simple_stmt''
                [Node ''yield_expr''
                   [Leaf ''keyword'' ''yield'' (2, 4) (2, 9),
                    Leaf ''number'' ''1'' (2, 10) (2, 11)],
                 Leaf ''newline'' [CHR 0x0A] (2, 11) (3, 0)],
              Node ''simple_stmt''
                [Node ''yield_expr''
                   [Leaf ''keyword'' ''yield'' (3, 4) (3, 9),
                    Leaf ''number'' ''2'' (3, 10) (3, 11)],
                 Leaf ''newline'' [CHR 0x0A] (3, 11) (4, 0)]]],
        Leaf ''endmarker'' '''' (4, 0) (4, 0)]"

text \<open>The module
  \<^verbatim>\<open>@overload\<close>
  \<^verbatim>\<open>def f(x): return 1\<close>
  \<^verbatim>\<open>@overload\<close>
  \<^verbatim>\<open>def f(x): return "s"\<close>
  \<^verbatim>\<open>def f(x): return x\<close>\<close>

definition module_overloads :: node where
  "module_overloads =
     Node ''file_input''
       [Node ''decorated''
          [Node ''decorator''
             [Leaf ''operator'' ''@'' (1, 0) (1, 1),
              Leaf ''name'' ''overload'' (1, 1) (1, 9),
              Leaf ''newline'' [CHR 0x0A] (1, 9) (2, 0)],
           Node ''funcdef''
             [Leaf ''keyword'' ''def'' (2, 0) (2, 3),
              Leaf ''name'' ''f'' (2, 4) (2, 5),
              Node ''parameters''
                [Leaf ''operator'' ''('' (2, 5) (2, 6),
                 Node ''param''
                   [Leaf ''name'' ''x'' (2, 6) (2, 7)],
                 Leaf ''operator'' '')'' (2, 7) (2, 8)],
              Leaf ''operator'' '':'' (2, 8) (2, 9),
              Node ''simple_stmt''
                [Node ''return_stmt''
                   [Leaf ''keyword'' ''return'' (2, 10) (2, 16),
                    Leaf ''number'' ''1'' (2, 17) (2, 18)],
                 Leaf ''newline'' [CHR 0x0A] (2, 18) (3, 0)]]],
        Node ''decorated''
          [Node ''decorator''
             [Leaf ''operator'' ''@'' (3, 0) (3, 1),
              Leaf ''name'' ''overload'' (3, 1) (3, 9),
              Leaf ''newline'' [CHR 0x0A] (3, 9) (4, 0)],
           Node ''funcdef''
             [Leaf ''keyword'' ''def'' (4, 0) (4, 3),
              Leaf ''name'' ''f'' (4, 4) (4, 5),
              Node ''parameters''
                [Leaf ''operator'' ''('' (4, 5) (4, 6),
                 Node ''param''
                   [Leaf ''name'' ''x'' (4, 6) (4, 7)],
                 Leaf ''operator'' '')'' (4, 7) (4, 8)],
              Leaf ''operator'' '':'' (4, 8) (4, 9),
              Node ''simple_stmt''
                [Node ''return_stmt''
                   [Leaf ''keyword'' ''return'' (4, 10) (4, 16),
                    Leaf ''string'' [CHR 0x22, CHR ''s'', CHR 0x22] (4, 17) (4, 20)],
                 Leaf ''newline'' [CHR 0x0A] (4, 20) (5, 0)]]],
        Node ''funcdef''
          [Leaf ''keyword'' ''def'' (5, 0) (5, 3),
           Leaf ''name'' ''f'' (5, 4) (5, 5),
           Node ''parameters''
             [Leaf ''operator'' ''('' (5, 5) (5, 6),
              Node ''param''
                [Leaf ''name'' ''x'' (5, 6) (5, 7)],
              Leaf ''operator'' '')'' (5, 7) (5, 8)],
           Leaf ''operator'' '':'' (5, 8) (5, 9),
           Node ''simple_stmt''
             [Node ''return_stmt''
                [Leaf ''keyword'' ''return'' (5, 10) (5, 16),
                 Leaf ''name'' ''x'' (5, 17) (5, 18)],
              Leaf ''newline'' [CHR 0x0A] (5, 18) (6, 0)]],
        Leaf ''endmarker'' '''' (6, 0) (6, 0)]"



text \<open>
  A name filter for the examples: of the names of function definitions with the given
  value that start before the position, the nearest one.
\<close>

definition is_definition_name_before :: "node \<Rightarrow> pos \<Rightarrow> path \<Rightarrow> bool" where
  "is_definition_name_before m until_position name =
     (name \<noteq> [] \<and> last name = 1 \<and>
      (case node_at m (butlast name) of
         None \<Rightarrow> False
       | Some funcdef \<Rightarrow> node_type funcdef = ''funcdef'') \<and>
      (case node_at m name of
         None \<Rightarrow> False
       | Some n \<Rightarrow> (case start_pos n of Inl e \<Rightarrow> False | Inr s \<Rightarrow> pos_less s until_position)))"

definition example_filter_get :: "ctx \<Rightarrow> pos \<Rightarrow> string \<Rightarrow> path list" where
  "example_filter_get c until_position x =
     take 1 (rev (filter (is_definition_name_before (module_node c) until_position)
                    (used_names (module_node c) x)))"

text \<open>The collaborators of the examples.\<close>

definition example_env :: env where
  "example_env =
     \<lparr>infer_node = example_infer_node,
      other_iter = (\<lambda>v. Inl TypeError),
      other_array_type = (\<lambda>v. ''instance''),
      other_getitem = (\<lambda>v index. Inl SimpleGetItemNotFound),
      iterate = (\<lambda>vs. Inr []),
      annotation_return_types = (\<lambda>c. {||}),
      docstring_return_types = (\<lambda>f. {||}),
      iter_return_stmts = example_iter_return_stmts,
      get_yield_exprs = example_get_yield_exprs,
      reachability_check = example_reachability_check,
      executed_params_and_issues = (\<lambda>c. ([], [])),
      filter_get = example_filter_get,
      is_analysis = False,
      version_info = (3, 8),
      async_generator_of = (\<lambda>vs. {||}),
      coroutine_of = (\<lambda>vs. {||})\<rparr>"

definition settings_on :: settings where
  "settings_on = \<lparr>dynamic_array_additions = True, dynamic_params_for_other_modules = True\<rparr>"

definition settings_off :: settings where
  "settings_off = \<lparr>dynamic_array_additions = False, dynamic_params_for_other_modules = True\<rparr>"




section \<open>The return statements that are scanned, in the words of the specification\<close>

text \<open>
  The scan stops at the first return statement classified reachable: the statements
  looked at are those before it and itself. Of these, the ones not classified unreachable
  contribute.
\<close>

definition returns_up_to_first_reachable :: "(path \<Rightarrow> reach) \<Rightarrow> path list \<Rightarrow> path list" where
  "returns_up_to_first_reachable check returns =
     takeWhile (\<lambda>r. check r \<noteq> REACHABLE) returns @
     take 1 (dropWhile (\<lambda>r. check r \<noteq> REACHABLE) returns)"

definition contributing_returns :: "(path \<Rightarrow> reach) \<Rightarrow> path list \<Rightarrow> path list" where
  "contributing_returns check returns =
     filter (\<lambda>r. check r \<noteq> UNREACHABLE) (returns_up_to_first_reachable check returns)"

section \<open>Synthetic sequences and merged arrays\<close>

lemma merged_iter_concat:
  "list_all2 (\<lambda>a ls. py_iter E S a = Inr ls) arrays lss \<Longrightarrow>
   merged_iter E S arrays = Inr (concat lss)"
  by (induction arrays lss rule: list_all2_induct) simp_all

lemma infer_known_values: "map (infer E) (map LazyKnownValues vss) = vss"
  by (induction vss) simp_all

text \<open>
  Claim C8. A synthetic sequence built from a list of known value sets iterates to
  exactly these value sets, in order, none lost and none twice: the iteration is the
  backing list itself, whatever lazy values it holds. A merged array iterates to the
  concatenation of the iterations of its arrays, in their order.
\<close>

theorem fake_sequence_round_trip_merged_concat:
  "py_iter E S (FakeSequence t lazy_value_list) = Inr lazy_value_list \<and>
   (\<exists>ls. py_iter E S (FakeSequence t (map LazyKnownValues vss)) = Inr ls \<and>
         length ls = length vss \<and> map (infer E) ls = vss) \<and>
   (list_all2 (\<lambda>a ls. py_iter E S a = Inr ls) arrays lss \<longrightarrow>
      py_iter E S (MergedArray t' arrays) = Inr (concat lss))"
proof (intro conjI impI)
  show "py_iter E S (FakeSequence t lazy_value_list) = Inr lazy_value_list"
    by simp
  show "\<exists>ls. py_iter E S (FakeSequence t (map LazyKnownValues vss)) = Inr ls \<and>
         length ls = length vss \<and> map (infer E) ls = vss"
    using infer_known_values [of E vss] by (intro exI [of _ "map LazyKnownValues vss"]) simp
  show "py_iter E S (MergedArray t' arrays) = Inr (concat lss)"
    if "list_all2 (\<lambda>a ls. py_iter E S a = Inr ls) arrays lss"
    using that by (simp add: merged_iter_concat)
qed

theorem fake_sequence_round_trip_merged_concat_witness:
  "list_all2 (\<lambda>a ls. py_iter example_env settings_on a = Inr ls)
     [FakeSequence ''list'' [LazyKnownValues {|CompiledObject (PyInt 1)|}],
      FakeSequence ''tuple'' [LazyKnownValue (CompiledObject (PyStr ''x'')),
                              LazyKnownValues {||}]]
     [[LazyKnownValues {|CompiledObject (PyInt 1)|}],
      [LazyKnownValue (CompiledObject (PyStr ''x'')), LazyKnownValues {||}]] \<and>
   py_iter example_env settings_on (MergedArray ''tuple''
     [FakeSequence ''list'' [LazyKnownValues {|CompiledObject (PyInt 1)|}],
      FakeSequence ''tuple'' [LazyKnownValue (CompiledObject (PyStr ''x'')),
                              LazyKnownValues {||}]]) =
   Inr [LazyKnownValues {|CompiledObject (PyInt 1)|},
        LazyKnownValue (CompiledObject (PyStr ''x'')), LazyKnownValues {||}]"
  using fake_sequence_round_trip_merged_concat
    [of example_env settings_on "''list''" "[]" "[]"
        "[FakeSequence ''list'' [LazyKnownValues {|CompiledObject (PyInt 1)|}],
          FakeSequence ''tuple'' [LazyKnownValue (CompiledObject (PyStr ''x'')),
                                  LazyKnownValues {||}]]"
        "[[LazyKnownValues {|CompiledObject (PyInt 1)|}],
          [LazyKnownValue (CompiledObject (PyStr ''x'')), LazyKnownValues {||}]]"
        "''tuple''"]
  by simp

section \<open>Dict literals\<close>

lemma from_sets_Nil: "from_sets [] = {||}"
  by (simp add: from_sets_def)

lemma from_sets_Cons: "from_sets (x # xs) = x |\<union>| from_sets xs"
  by (simp add: from_sets_def)

lemma number_of_1_2: "number_of ''1'' = 1" "number_of ''2'' = 2"
  by (simp_all add: number_of_def)

lemma dict_getitem_first:
  "i < length kvs \<Longrightarrow> fBex (infer_node E c (fst (kvs ! i))) (key_equals index) \<Longrightarrow>
   (\<forall>j<i. \<not> fBex (infer_node E c (fst (kvs ! j))) (key_equals index)) \<Longrightarrow>
   dict_getitem E c (map (\<lambda>(k, v). KV k v) kvs) index = Inr (infer_node E c (snd (kvs ! i)))"
proof (induction kvs arbitrary: i)
  case Nil
  then show ?case by simp
next
  case (Cons kv kvs)
  obtain k v where kv: "kv = (k, v)" by (cases kv)
  show ?case
  proof (cases i)
    case 0
    with Cons.prems kv show ?thesis by simp
  next
    case (Suc i')
    from Cons.prems(3) Suc have first: "\<not> fBex (infer_node E c k) (key_equals index)"
      using kv by fastforce
    from Cons.prems(3) Suc
    have rest: "\<forall>j<i'. \<not> fBex (infer_node E c (fst (kvs ! j))) (key_equals index)"
      by fastforce
    from Cons.prems Suc have "i' < length kvs"
      and "fBex (infer_node E c (fst (kvs ! i'))) (key_equals index)" by simp_all
    from Cons.IH [OF this rest] first kv Suc show ?thesis by simp
  qed
qed

lemma dict_getitem_none:
  "(\<forall>j<length kvs. \<not> fBex (infer_node E c (fst (kvs ! j))) (key_equals index)) \<Longrightarrow>
   dict_getitem E c (map (\<lambda>(k, v). KV k v) kvs) index = Inl SimpleGetItemNotFound"
proof (induction kvs)
  case Nil
  then show ?case by simp
next
  case (Cons kv kvs)
  obtain k v where kv: "kv = (k, v)" by (cases kv)
  from Cons.prems have first: "\<not> fBex (infer_node E c k) (key_equals index)"
    using kv by fastforce
  from Cons.prems
  have "\<forall>j<length kvs. \<not> fBex (infer_node E c (fst (kvs ! j))) (key_equals index)"
    by fastforce
  from Cons.IH [OF this] first kv show ?case by simp
qed

lemma get_tree_entries_dict_a1_a2:
  "get_tree_entries dict_a1_a2 =
     Inr (map (\<lambda>(k, v). KV k v)
       [(Leaf ''string'' (CHR 0x22 # ''a'' @ [CHR 0x22]) (1, 1) (1, 4),
         Leaf ''number'' ''1'' (1, 6) (1, 7)),
        (Leaf ''string'' (CHR 0x22 # ''a'' @ [CHR 0x22]) (1, 9) (1, 12),
         Leaf ''number'' ''2'' (1, 14) (1, 15))])"
  by (simp add: get_tree_entries_def dict_a1_a2_def TUPLE_LIKE_def)

lemma get_tree_entries_dict_x1:
  "get_tree_entries dict_x1 =
     Inr (map (\<lambda>(k, v). KV k v)
            [(Leaf ''name'' ''x'' (1, 1) (1, 2), Leaf ''number'' ''1'' (1, 4) (1, 5))])"
  by (simp add: get_tree_entries_def dict_x1_def TUPLE_LIKE_def)

text \<open>
  Claim C3. Let the entries of a dict literal be the pairs \<open>kvs\<close>, in source order, and
  say that key \<open>i\<close> matches when one of the values its expression infers to is a compiled
  object equal to the index by native equality. If key \<open>i\<close> matches and no key before it
  does, indexing returns what the value expression of entry \<open>i\<close> infers to, whatever the
  later entries are; if no key matches, indexing raises the key-not-found signal. The
  witness is \<^verbatim>\<open>{"a": 1, "a": 2}["a"]\<close>, which gives 1 and not 2.
\<close>

theorem dict_getitem_first_match:
  "get_tree_entries atom = Inr (map (\<lambda>(k, v). KV k v) kvs) \<Longrightarrow>
   (\<forall>i<length kvs.
      fBex (infer_node E c (fst (kvs ! i))) (key_equals index) \<and>
      (\<forall>j<i. \<not> fBex (infer_node E c (fst (kvs ! j))) (key_equals index)) \<longrightarrow>
      py_simple_getitem E S (new_DictLiteralValue c atom) index =
        Inr (infer_node E c (snd (kvs ! i)))) \<and>
   ((\<forall>j<length kvs. \<not> fBex (infer_node E c (fst (kvs ! j))) (key_equals index)) \<longrightarrow>
      py_simple_getitem E S (new_DictLiteralValue c atom) index = Inl SimpleGetItemNotFound)"
  by (simp add: new_DictLiteralValue_def dict_getitem_first dict_getitem_none)

theorem dict_getitem_first_match_witness:
  "get_tree_entries dict_a1_a2 =
     Inr (map (\<lambda>(k, v). KV k v)
       [(Leaf ''string'' (CHR 0x22 # ''a'' @ [CHR 0x22]) (1, 1) (1, 4),
         Leaf ''number'' ''1'' (1, 6) (1, 7)),
        (Leaf ''string'' (CHR 0x22 # ''a'' @ [CHR 0x22]) (1, 9) (1, 12),
         Leaf ''number'' ''2'' (1, 14) (1, 15))]) \<and>
   py_simple_getitem example_env settings_on
     (new_DictLiteralValue (module_context dict_a1_a2) dict_a1_a2) (PyStr ''a'') =
   Inr {|CompiledObject (PyInt 1)|} \<and>
   py_simple_getitem example_env settings_on
     (new_DictLiteralValue (module_context dict_a1_a2) dict_a1_a2) (PyStr ''b'') =
   Inl SimpleGetItemNotFound"
  using dict_getitem_first_match [OF get_tree_entries_dict_a1_a2, where E = example_env
      and c = "module_context dict_a1_a2" and index = "PyStr ''a''" and S = settings_on]
    dict_getitem_first_match [OF get_tree_entries_dict_a1_a2, where E = example_env
      and c = "module_context dict_a1_a2" and index = "PyStr ''b''" and S = settings_on]
  by (simp add: get_tree_entries_dict_a1_a2 example_env_def unquote_def native_eq_def
      number_of_1_2 All_less_Suc2)

lemma dict_key_types_pairs:
  "dict_key_types E c (map (\<lambda>(k, v). KV k v) kvs) types =
   Inr (types |\<union>| from_sets (map (\<lambda>(k, v). infer_node E c k) kvs))"
proof (induction kvs arbitrary: types)
  case Nil
  then show ?case by (simp add: from_sets_Nil)
next
  case (Cons kv kvs)
  obtain k v where "kv = (k, v)" by (cases kv)
  with Cons show ?case by (simp add: from_sets_Cons funion_assoc)
qed

text \<open>
  Claim C9, as the code has it. Iterating a dict literal with the entries \<open>kvs\<close> yields
  keys only: with \<open>types\<close> the union of what the key expressions infer to, it yields one
  lazy value for each value in \<open>types\<close>, and each of them holds all of \<open>types\<close>. The
  number of lazy values is the number of distinct inferred key values, not the number of
  key expressions of the literal.
\<close>

theorem dict_iter_key_types:
  "get_tree_entries atom = Inr (map (\<lambda>(k, v). KV k v) kvs) \<Longrightarrow>
   types = from_sets (map (\<lambda>(k, v). infer_node E c k) kvs) \<Longrightarrow>
   py_iter E S (new_DictLiteralValue c atom) =
     Inr (replicate (fcard types) (LazyKnownValues types))"
  by (simp add: new_DictLiteralValue_def dict_key_types_pairs)

theorem dict_iter_key_types_witness:
  "py_iter example_env settings_on
     (new_DictLiteralValue
        (Context dict_x1 False [] None
           [([], [(''x'', {|CompiledObject (PyInt 1), CompiledObject (PyStr ''s'')|})])])
        dict_x1) =
   Inr [LazyKnownValues {|CompiledObject (PyInt 1), CompiledObject (PyStr ''s'')|},
        LazyKnownValues {|CompiledObject (PyInt 1), CompiledObject (PyStr ''s'')|}]"
  using dict_iter_key_types [OF get_tree_entries_dict_x1 refl, where E = example_env
    and c = "Context dict_x1 False [] None
           [([], [(''x'', {|CompiledObject (PyInt 1), CompiledObject (PyStr ''s'')|})])]"
    and S = settings_on]
  by (simp add: example_env_def from_sets_def fcard_finsert_if fcard_fempty)

text \<open>
  The claim as it is written fails: \<^verbatim>\<open>{x: 1}\<close> has one key expression; where \<^verbatim>\<open>x\<close>
  infers to nothing the iteration yields no lazy value, and where \<^verbatim>\<open>x\<close> infers to
  two values it yields two.
\<close>

theorem dict_iter_per_key_slot_counterexample:
  "get_tree_entries dict_x1 =
     Inr [KV (Leaf ''name'' ''x'' (1, 1) (1, 2)) (Leaf ''number'' ''1'' (1, 4) (1, 5))] \<and>
   py_iter example_env settings_on (new_DictLiteralValue (module_context dict_x1) dict_x1) =
     Inr [] \<and>
   py_iter example_env settings_on
     (new_DictLiteralValue
        (Context dict_x1 False [] None
           [([], [(''x'', {|CompiledObject (PyInt 1), CompiledObject (PyStr ''s'')|})])])
        dict_x1) =
   Inr [LazyKnownValues {|CompiledObject (PyInt 1), CompiledObject (PyStr ''s'')|},
        LazyKnownValues {|CompiledObject (PyInt 1), CompiledObject (PyStr ''s'')|}]"
  by (simp add: get_tree_entries_def dict_x1_def TUPLE_LIKE_def new_DictLiteralValue_def
      module_context_def example_env_def fcard_finsert_if fcard_fempty)

section \<open>The scan of array additions\<close>

lemma check_possible_names_raises:
  "name \<in> set names \<Longrightarrow> check_possible_name c name = Some e \<Longrightarrow>
   \<exists>e'. check_possible_names c names = Some e'"
  by (induction names) (auto split: option.splits)

lemma check_search_names_raises:
  "add_name \<in> set search_names \<Longrightarrow>
   check_possible_names c (used_names (module_node c) add_name) = Some e \<Longrightarrow>
   \<exists>e'. check_search_names c search_names = Some e'"
  by (induction search_names) (auto split: option.splits)

lemma check_array_additions_never_adds:
  "fst (check_array_additions E S c sequence) = Inr additions \<Longrightarrow> additions = []"
  by (auto simp: check_array_additions_def check_array_additions_impl_def Let_def
      split: if_splits option.splits)

lemma check_array_additions_disabled:
  "\<not> dynamic_array_additions S \<or> root_is_compiled c \<Longrightarrow>
   check_array_additions E S c sequence = (Inr [], S)"
  by (auto simp: check_array_additions_def check_array_additions_impl_def)

text \<open>
  Claim C1, at its own example. The list display of \<^verbatim>\<open>a = []\<close> in the module with
  \<^verbatim>\<open>a.append(1)\<close> and \<^verbatim>\<open>a.append("x")\<close> is a list literal. With the setting for
  dynamic array additions enabled its iteration raises \<^verbatim>\<open>NotImplementedError\<close> at the
  first call site and yields no lazy value for the int or the string. With the setting
  disabled, or in a context whose root is a compiled object, or in the module without any
  call site, the iteration yields the (here no) literal elements and nothing else.
\<close>

theorem list_append_iteration_raises:
  "new_SequenceLiteralValue (module_context module_append) empty_list_atom =
     Inr (SequenceLiteralValue ''list'' (module_context module_append) empty_list_atom) \<and>
   used_names module_append ''append'' = [[1, 0, 1, 1], [2, 0, 1, 1]] \<and>
   py_iter example_env settings_on
     (SequenceLiteralValue ''list'' (module_context module_append) empty_list_atom) =
     Inl NotImplementedError \<and>
   py_iter example_env settings_off
     (SequenceLiteralValue ''list'' (module_context module_append) empty_list_atom) = Inr [] \<and>
   py_iter example_env settings_on
     (SequenceLiteralValue ''list'' (Context module_append True [] None []) empty_list_atom) =
     Inr [] \<and>
   py_iter example_env settings_on
     (SequenceLiteralValue ''list'' (module_context module_no_append) empty_list_atom) = Inr []"
  by (simp add: new_SequenceLiteralValue_def get_tree_entries_def empty_list_atom_def
      TUPLE_LIKE_def check_array_additions_def check_array_additions_impl_def settings_on_def
      settings_off_def module_context_def module_append_def module_no_append_def
      check_possible_name_def pos_less_def example_env_def)

text \<open>
  Claim C2 fails on a whole class of inputs. Take a list or set literal and a context
  that is not in a compiled module, with dynamic array additions enabled. If the module
  has a name used as \<^verbatim>\<open>append\<close>, \<^verbatim>\<open>extend\<close> or \<^verbatim>\<open>insert\<close> (for a set:
  \<^verbatim>\<open>add\<close> or \<^verbatim>\<open>update\<close>) that lies within the context's node and is followed by a call
  with an argument, then iterating the literal ends in an exception, whatever the rest of
  the module is.
\<close>

theorem call_site_aborts_iteration:
  assumes "t = ''list'' \<or> t = ''set''"
    and "add_name \<in> set (if t = ''list'' then [''append'', ''extend'', ''insert'']
                        else [''add'', ''update''])"
    and "name \<in> set (used_names (module_node c) add_name)"
    and "check_possible_name c name = Some NotImplementedError"
    and "dynamic_array_additions S" and "\<not> root_is_compiled c"
  shows "\<exists>e. py_iter E S (SequenceLiteralValue t c atom) = Inl e"
proof -
  from assms(3,4) obtain e1
    where "check_possible_names c (used_names (module_node c) add_name) = Some e1"
    using check_possible_names_raises by blast
  with assms(2) obtain e2
    where e2: "check_search_names c (if t = ''list'' then [''append'', ''extend'', ''insert'']
                        else [''add'', ''update'']) = Some e2"
    using check_search_names_raises by blast
  have "fst (check_array_additions E S c (SequenceLiteralValue t c atom)) = Inl e2"
    using assms(1,5,6) e2
    by (auto simp: check_array_additions_def check_array_additions_impl_def Let_def)
  moreover have "t \<noteq> ''dict''" using assms(1) by auto
  ultimately show ?thesis
    by (auto split: sum.splits)
qed

theorem call_site_aborts_iteration_witness:
  "[1, 0, 1, 1] \<in> set (used_names (module_node (module_context module_set_add)) ''add'') \<and>
   check_possible_name (module_context module_set_add) [1, 0, 1, 1] = Some NotImplementedError \<and>
   dynamic_array_additions settings_on \<and>
   \<not> root_is_compiled (module_context module_set_add) \<and>
   (\<exists>e. py_iter example_env settings_on
     (SequenceLiteralValue ''set'' (module_context module_set_add) set_atom) = Inl e)"
proof -
  have "\<exists>e. py_iter example_env settings_on
     (SequenceLiteralValue ''set'' (module_context module_set_add) set_atom) = Inl e"
    by (rule call_site_aborts_iteration [where add_name = "''add''" and name = "[1, 0, 1, 1]"])
      (simp_all add: module_context_def module_set_add_def settings_on_def
        check_possible_name_def pos_less_def)
  then show ?thesis
    by (simp add: module_context_def module_set_add_def settings_on_def
        check_possible_name_def pos_less_def)
qed

text \<open>
  The scan of the set literal of \<^verbatim>\<open>s = {0}\<close> in the module with \<^verbatim>\<open>s.add(1)\<close> raises,
  and the setting it had switched off stays off.
\<close>

lemma set_add_scan_raises:
  "check_array_additions example_env settings_on (module_context module_set_add)
     (SequenceLiteralValue ''set'' (module_context module_set_add) set_atom) =
   (Inl NotImplementedError,
    \<lparr>dynamic_array_additions = True, dynamic_params_for_other_modules = False\<rparr>)"
  by (simp add: check_array_additions_def check_array_additions_impl_def settings_on_def
      module_context_def module_set_add_def check_possible_name_def pos_less_def)

text \<open>
  Claim C7, at its own example. In the module \<^verbatim>\<open>a = []; a.append(a)\<close> the name
  \<^verbatim>\<open>append\<close> passes every test of the scan, so the scan raises before it enters the
  recursion guard of the call site, and the iteration of the list literal ends in
  \<^verbatim>\<open>NotImplementedError\<close>, not in a value set.
\<close>

theorem self_append_iteration_raises:
  "used_names module_append_self ''append'' = [[1, 0, 1, 1]] \<and>
   check_possible_name (module_context module_append_self) [1, 0, 1, 1] =
     Some NotImplementedError \<and>
   py_iter example_env settings_on
     (SequenceLiteralValue ''list'' (module_context module_append_self) empty_list_atom) =
     Inl NotImplementedError"
  by (simp add: get_tree_entries_def empty_list_atom_def TUPLE_LIKE_def
      check_array_additions_def check_array_additions_impl_def settings_on_def
      module_context_def module_append_self_def check_possible_name_def pos_less_def
      example_env_def)

section \<open>Return values\<close>

lemma contributing_returns_Nil: "contributing_returns check [] = []"
  by (simp add: contributing_returns_def returns_up_to_first_reachable_def)

lemma contributing_returns_Cons:
  "contributing_returns check (r # rs) =
     (if check r = UNREACHABLE then contributing_returns check rs
      else if check r = REACHABLE then [r]
      else r # contributing_returns check rs)"
  by (simp add: contributing_returns_def returns_up_to_first_reachable_def)

lemma scan_returns_contributing:
  "\<forall>r\<in>set (contributing_returns (reachability_check E self (tree_node self)) returns).
      return_stmt_values E self r = Inr (vals r) \<Longrightarrow>
   scan_returns E self False returns value_set =
     Inr (value_set |\<union>|
          from_sets (map vals
            (contributing_returns (reachability_check E self (tree_node self)) returns)))"
proof (induction returns arbitrary: value_set)
  case Nil
  then show ?case by (simp add: contributing_returns_Nil from_sets_Nil)
next
  case (Cons r returns)
  show ?case
  proof (cases "reachability_check E self (tree_node self) r")
    case REACHABLE
    with Cons.prems show ?thesis
      by (simp add: contributing_returns_Cons from_sets_Cons from_sets_Nil)
  next
    case UNREACHABLE
    with Cons show ?thesis
      by (simp add: contributing_returns_Cons)
  next
    case UNSURE
    with Cons.prems have r: "return_stmt_values E self r = Inr (vals r)"
      and rest: "\<forall>r\<in>set (contributing_returns (reachability_check E self (tree_node self)) returns).
        return_stmt_values E self r = Inr (vals r)"
      by (simp_all add: contributing_returns_Cons)
    from Cons.IH [OF rest] r UNSURE show ?thesis
      by (simp add: contributing_returns_Cons from_sets_Cons funion_assoc)
  qed
qed

lemma scan_returns_mono:
  "scan_returns E self check_yields returns value_set = Inr result \<Longrightarrow> value_set |\<subseteq>| result"
proof (induction returns arbitrary: value_set)
  case Nil
  then show ?case by simp
next
  case (Cons r returns)
  show ?case
  proof (cases "reachability_check E self (tree_node self) r = UNREACHABLE")
    case True
    with Cons show ?thesis by simp
  next
    case False
    obtain vs where vs: "(if check_yields then yield_expr_values E self r
                          else return_stmt_values E self r) = Inr vs"
      using Cons.prems False by (auto simp: Let_def split: sum.splits if_splits)
    show ?thesis
    proof (cases "reachability_check E self (tree_node self) r = REACHABLE")
      case True
      with Cons.prems vs show ?thesis by (auto simp: Let_def split: if_splits)
    next
      case notR: False
      with Cons.prems vs False
      have "scan_returns E self check_yields returns (value_set |\<union>| vs) = Inr result"
        by (auto simp: Let_def split: if_splits)
      from Cons.IH [OF this] show ?thesis by auto
    qed
  qed
qed

text \<open>
  Claim C5, for the execution of a function definition (a lambda has neither annotation
  nor return statements: its value is the inference of its body). If the annotation
  gives a non-empty set, that set is the result, whatever the docstring and the return
  statements are. Otherwise the result is the union of the docstring's types with what
  the contributing return statements infer to: those up to and including the first one
  classified reachable, without the ones classified unreachable.
\<close>

theorem return_values_annotation_then_scan:
  assumes "node_of self (tree_node self) = Inr funcdef"
    and "node_type funcdef \<noteq> ''lambdef''"
  shows
    "(annotation_return_types E self \<noteq> {||} \<longrightarrow>
        get_return_values E self False = Inr (annotation_return_types E self)) \<and>
     (annotation_return_types E self = {||} \<and>
      execution_of self = Some (function_value, arguments) \<and>
      (\<forall>r\<in>set (contributing_returns (reachability_check E self (tree_node self))
                 (iter_return_stmts E (module_node self) (tree_node self))).
         return_stmt_values E self r = Inr (vals r)) \<longrightarrow>
        get_return_values E self False =
          Inr (docstring_return_types E function_value |\<union>|
               from_sets (map vals
                 (contributing_returns (reachability_check E self (tree_node self))
                    (iter_return_stmts E (module_node self) (tree_node self))))))"
  using assms by (simp add: get_return_values_def scan_returns_contributing)

theorem return_values_annotation_then_scan_witness:
  "get_return_values (example_env\<lparr>annotation_return_types := (\<lambda>c. {|OtherValue 0|})\<rparr>)
     (execution_at module_returns [0]) False = Inr {|OtherValue 0|} \<and>
   contributing_returns
     (reachability_check example_env (execution_at module_returns [0])
        (tree_node (execution_at module_returns [0])))
     (iter_return_stmts example_env (module_node (execution_at module_returns [0]))
        (tree_node (execution_at module_returns [0]))) =
     [[0, 4, 1, 3, 1, 0], [0, 4, 2, 0]] \<and>
   get_return_values example_env (execution_at module_returns [0]) False =
     Inr {|CompiledObject (PyInt 1), CompiledObject (PyStr ''a'')|}"
proof -
  let ?self = "execution_at module_returns [0]"
  let ?E = "example_env\<lparr>annotation_return_types := (\<lambda>c. {|OtherValue 0|})\<rparr>"
  let ?f = "FunctionValue (module_context module_returns) [0]"
  let ?vals = "\<lambda>r. if r = [0, 4, 1, 3, 1, 0] then {|CompiledObject (PyInt 1)|}
                    else {|CompiledObject (PyStr ''a'')|}"
  let ?contributing = "contributing_returns
     (reachability_check example_env ?self (tree_node ?self))
     (iter_return_stmts example_env (module_node ?self) (tree_node ?self))"
  have node: "node_of ?self (tree_node ?self) = Inr (the (node_at module_returns [0]))"
    by code_simp
  have type: "node_type (the (node_at module_returns [0])) \<noteq> ''lambdef''"
    by code_simp
  have annotated: "annotation_return_types ?E ?self \<noteq> {||}"
    by simp
  have plain: "annotation_return_types example_env ?self = {||}"
    by (simp add: example_env_def)
  have exec: "execution_of ?self = Some (?f, [])"
    by (simp add: execution_at_def)
  have contributing: "?contributing = [[0, 4, 1, 3, 1, 0], [0, 4, 2, 0]]"
    by code_simp
  have vals: "\<forall>r\<in>set ?contributing. return_stmt_values example_env ?self r = Inr (?vals r)"
    unfolding contributing by code_simp
  have union: "docstring_return_types example_env ?f |\<union>| from_sets (map ?vals ?contributing) =
      {|CompiledObject (PyInt 1), CompiledObject (PyStr ''a'')|}"
    unfolding contributing by (auto simp: example_env_def from_sets_def)
  from return_values_annotation_then_scan [OF node type, of ?E] annotated
  have a: "get_return_values ?E ?self False = Inr {|OtherValue 0|}"
    by simp
  from return_values_annotation_then_scan [OF node type, of example_env ?f "[]" ?vals]
    plain exec vals
  have "get_return_values example_env ?self False =
      Inr (docstring_return_types example_env ?f |\<union>| from_sets (map ?vals ?contributing))"
    by blast
  with union have b: "get_return_values example_env ?self False =
      Inr {|CompiledObject (PyInt 1), CompiledObject (PyStr ''a'')|}"
    by simp
  from a contributing b show ?thesis by blast
qed

text \<open>
  Claim C10. A return statement that is the bare keyword and is not classified
  unreachable contributes exactly the builtin None: the value set after it is the one
  before it with None added, and None is in the result of any scan that reaches it.
\<close>

theorem bare_return_contributes_None:
  assumes "node_of self r = Inr (Leaf ''keyword'' ''return'' s e)"
    and "reachability_check E self (tree_node self) r \<noteq> UNREACHABLE"
  shows
    "return_stmt_values E self r = Inr {|builtin_None|} \<and>
     (reachability_check E self (tree_node self) r = REACHABLE \<longrightarrow>
        scan_returns E self False (r # returns) value_set =
          Inr (value_set |\<union>| {|builtin_None|})) \<and>
     (reachability_check E self (tree_node self) r \<noteq> REACHABLE \<longrightarrow>
        scan_returns E self False (r # returns) value_set =
          scan_returns E self False returns (value_set |\<union>| {|builtin_None|})) \<and>
     (\<forall>result. scan_returns E self False (r # returns) value_set = Inr result \<longrightarrow>
        builtin_None |\<in>| result)"
proof -
  have v: "return_stmt_values E self r = Inr {|builtin_None|}"
    using assms(1) by (simp add: return_stmt_values_def)
  have "builtin_None |\<in>| result"
    if "scan_returns E self False (r # returns) value_set = Inr result" for result
  proof (cases "reachability_check E self (tree_node self) r = REACHABLE")
    case True
    with that v show ?thesis by auto
  next
    case False
    with that v assms(2)
    have "scan_returns E self False returns (value_set |\<union>| {|builtin_None|}) = Inr result"
      by simp
    from scan_returns_mono [OF this] show ?thesis by auto
  qed
  with v assms(2) show ?thesis by simp
qed

theorem bare_return_contributes_None_witness:
  "node_of (execution_at module_bare_return [0]) [0, 4, 1, 3, 1, 0] =
     Inr (Leaf ''keyword'' ''return'' (3, 8) (3, 14)) \<and>
   reachability_check example_env (execution_at module_bare_return [0])
     (tree_node (execution_at module_bare_return [0])) [0, 4, 1, 3, 1, 0] = UNSURE \<and>
   return_stmt_values example_env (execution_at module_bare_return [0]) [0, 4, 1, 3, 1, 0] =
     Inr {|builtin_None|} \<and>
   get_return_values example_env (execution_at module_bare_return [0]) False =
     Inr {|builtin_None, CompiledObject (PyInt 1)|} \<and>
   builtin_None |\<in>| {|builtin_None, CompiledObject (PyInt 1)|}"
proof -
  let ?self = "execution_at module_bare_return [0]"
  let ?r = "[0, 4, 1, 3, 1, 0] :: path"
  have node: "node_of ?self ?r = Inr (Leaf ''keyword'' ''return'' (3, 8) (3, 14))"
    by code_simp
  have check: "reachability_check example_env ?self (tree_node ?self) ?r = UNSURE"
    by code_simp
  then have check': "reachability_check example_env ?self (tree_node ?self) ?r \<noteq> UNREACHABLE"
    by simp
  have result: "get_return_values example_env ?self False =
      Inr {|builtin_None, CompiledObject (PyInt 1)|}"
    by code_simp
  have scan: "scan_returns example_env ?self False (?r # [[0, 4, 2, 0]]) {||} =
      Inr {|builtin_None, CompiledObject (PyInt 1)|}"
    by code_simp
  from bare_return_contributes_None [OF node check', of "[[0, 4, 2, 0]]" "{||}"] scan
  have "return_stmt_values example_env ?self ?r = Inr {|builtin_None|}"
    and "builtin_None |\<in>| {|builtin_None, CompiledObject (PyInt 1)|}"
    by blast+
  with node check result show ?thesis by blast
qed

section \<open>Yields\<close>









text \<open>
  Two yields directly in the function, \<^verbatim>\<open>yield 1; yield 2\<close>, merge to both values.
\<close>

lemma two_yields_merged:
  "merge_yield_values example_env (execution_at module_two_yields [0]) =
     Inr {|CompiledObject (PyInt 1), CompiledObject (PyInt 2)|}"
  by code_simp


section \<open>Overloaded functions\<close>

lemma get_function_execution_of:
  "get_function_execution f arguments = Inr fe \<Longrightarrow> execution_of fe = Some (f, arguments)"
  by (cases f) auto

lemma overloaded_call_first_in_list:
  "list_all2 (\<lambda>f fe. get_function_execution f arguments = Inr fe) fs execs \<Longrightarrow>
   i < length fs \<Longrightarrow> matches_signature E (execs ! i) \<Longrightarrow>
   (\<forall>j<i. \<not> matches_signature E (execs ! j)) \<Longrightarrow>
   overloaded_call E fs arguments function_executions = execution_infer E (execs ! i)"
proof (induction fs execs arbitrary: i function_executions rule: list_all2_induct)
  case Nil
  then show ?case by simp
next
  case (Cons f fs fe execs)
  show ?case
  proof (cases i)
    case 0
    with Cons.hyps(1) Cons.prems show ?thesis by simp
  next
    case (Suc i')
    with Cons.prems have "\<not> matches_signature E fe" by auto
    moreover from Suc Cons.prems have "i' < length fs" "matches_signature E (execs ! i')"
      "\<forall>j<i'. \<not> matches_signature E (execs ! j)" by auto
    ultimately show ?thesis using Cons.hyps(1) Cons.IH [of i'] Suc by simp
  qed
qed

lemma overloaded_call_no_match:
  "list_all2 (\<lambda>f fe. get_function_execution f arguments = Inr fe) fs execs \<Longrightarrow>
   (\<forall>j<length fs. \<not> matches_signature E (execs ! j)) \<Longrightarrow>
   overloaded_call E fs arguments function_executions =
     (if is_analysis E then Inr {||} else infer_executions E (function_executions @ execs))"
proof (induction fs execs arbitrary: function_executions rule: list_all2_induct)
  case Nil
  then show ?case by simp
next
  case (Cons f fs fe execs)
  from Cons.prems have "\<not> matches_signature E fe"
    and "\<forall>j<length fs. \<not> matches_signature E (execs ! j)" by auto
  with Cons.hyps(1) Cons.IH [of "function_executions @ [fe]"] show ?case by simp
qed

lemma executions_distinct:
  assumes "list_all2 (\<lambda>f fe. get_function_execution f arguments = Inr fe) fs execs"
    and "distinct fs"
  shows "distinct execs"
proof -
  from assms(1) have "fs = map (\<lambda>fe. fst (the (execution_of fe))) execs"
    by (induction fs execs rule: list_all2_induct) (auto dest: get_function_execution_of)
  with assms(2) show ?thesis by (metis distinct_map)
qed

lemma find_overload_functions_itself_first:
  "find_overload_functions fuel E context def_path = Some (Inr found) \<Longrightarrow>
   node_at (module_node context) def_path = Some funcdef \<Longrightarrow>
   node_type funcdef \<noteq> ''lambdef'' \<Longrightarrow>
   is_overload_decorated (module_node context) def_path = Inr True \<Longrightarrow>
   \<exists>later. found = def_path # later"
  by (auto simp: find_overload_functions_def split: option.splits sum.splits)

lemma from_context_keeps_order:
  "from_context fuel E context def_path = Some (Inr (OverloadedFunctionValue function fs)) \<Longrightarrow>
   \<exists>found. find_overload_functions fuel E context def_path = Some (Inr found) \<and>
           function = FunctionValue context def_path \<and>
           fs = map (FunctionValue context) found"
  by (auto simp: from_context_def Let_def split: option.splits sum.splits if_splits)

text \<open>
  Claim C4, as the code has it. The overloads of an overloaded function value are kept
  in the order in which they were found: the definition itself first when it is
  decorated as an overload, then the earlier definitions the name filter gives, searching
  backwards. In a call each overload of the list gets an execution context of its own,
  distinct overloads get distinct ones. The call infers the execution of the first
  overload of the list whose signature matches, whatever the later ones are; the result
  is a function of the call. When none matches, it gives nothing in analysis mode and
  else the union of what the executions of all overloads infer to.
\<close>

theorem overloaded_call_in_list_order:
  assumes "list_all2 (\<lambda>f fe. get_function_execution f arguments = Inr fe) fs execs"
  shows "(distinct fs \<longrightarrow> distinct execs) \<and>
    (\<forall>i<length fs. matches_signature E (execs ! i) \<and>
        (\<forall>j<i. \<not> matches_signature E (execs ! j)) \<longrightarrow>
        py_call E (OverloadedFunctionValue wrapped fs) arguments =
          execution_infer E (execs ! i)) \<and>
    ((\<forall>j<length fs. \<not> matches_signature E (execs ! j)) \<longrightarrow>
        py_call E (OverloadedFunctionValue wrapped fs) arguments =
          (if is_analysis E then Inr {||} else infer_executions E execs)) \<and>
    (from_context fuel E context def_path =
       Some (Inr (OverloadedFunctionValue wrapped' fs')) \<longrightarrow>
       (\<exists>found. find_overload_functions fuel E context def_path = Some (Inr found) \<and>
          fs' = map (FunctionValue context) found \<and>
          (\<forall>funcdef. node_at (module_node context) def_path = Some funcdef \<and>
             node_type funcdef \<noteq> ''lambdef'' \<and>
             is_overload_decorated (module_node context) def_path = Inr True \<longrightarrow>
             (\<exists>later. found = def_path # later))))"
proof (intro conjI impI)
  show "distinct execs" if "distinct fs"
    using executions_distinct [OF assms that] .
  show "\<forall>i<length fs. matches_signature E (execs ! i) \<and>
        (\<forall>j<i. \<not> matches_signature E (execs ! j)) \<longrightarrow>
        py_call E (OverloadedFunctionValue wrapped fs) arguments =
          execution_infer E (execs ! i)"
    using overloaded_call_first_in_list [OF assms, of _ E "[]"] by simp
  show "py_call E (OverloadedFunctionValue wrapped fs) arguments =
          (if is_analysis E then Inr {||} else infer_executions E execs)"
    if "\<forall>j<length fs. \<not> matches_signature E (execs ! j)"
    using overloaded_call_no_match [OF assms that, of "[]"] by simp
  show "\<exists>found. find_overload_functions fuel E context def_path = Some (Inr found) \<and>
          fs' = map (FunctionValue context) found \<and>
          (\<forall>funcdef. node_at (module_node context) def_path = Some funcdef \<and>
             node_type funcdef \<noteq> ''lambdef'' \<and>
             is_overload_decorated (module_node context) def_path = Inr True \<longrightarrow>
             (\<exists>later. found = def_path # later))"
    if "from_context fuel E context def_path =
       Some (Inr (OverloadedFunctionValue wrapped' fs'))"
  proof -
    from from_context_keeps_order [OF that] obtain found
      where found: "find_overload_functions fuel E context def_path = Some (Inr found)"
        and fs': "fs' = map (FunctionValue context) found"
      by blast
    with find_overload_functions_itself_first [OF found] show ?thesis by blast
  qed
qed

theorem overloaded_call_in_list_order_witness:
  "list_all2 (\<lambda>f fe. get_function_execution f [] = Inr fe)
     [FunctionValue (module_context module_overloads) [1, 1],
      FunctionValue (module_context module_overloads) [0, 1]]
     [execution_at module_overloads [1, 1], execution_at module_overloads [0, 1]] \<and>
   distinct [execution_at module_overloads [1, 1], execution_at module_overloads [0, 1]] \<and>
   matches_signature example_env (execution_at module_overloads [1, 1]) \<and>
   py_call example_env
     (OverloadedFunctionValue (FunctionValue (module_context module_overloads) [2])
        [FunctionValue (module_context module_overloads) [1, 1],
         FunctionValue (module_context module_overloads) [0, 1]]) [] =
     Inr {|CompiledObject (PyStr ''s'')|} \<and>
   py_call (example_env\<lparr>executed_params_and_issues := (\<lambda>c. ([], [''issue'']))\<rparr>)
     (OverloadedFunctionValue (FunctionValue (module_context module_overloads) [2])
        [FunctionValue (module_context module_overloads) [1, 1],
         FunctionValue (module_context module_overloads) [0, 1]]) [] =
     Inr {|CompiledObject (PyStr ''s''), CompiledObject (PyInt 1)|} \<and>
   py_call (example_env\<lparr>executed_params_and_issues := (\<lambda>c. ([], [''issue''])),
                         is_analysis := True\<rparr>)
     (OverloadedFunctionValue (FunctionValue (module_context module_overloads) [2])
        [FunctionValue (module_context module_overloads) [1, 1],
         FunctionValue (module_context module_overloads) [0, 1]]) [] = Inr {||}"
proof -
  let ?mc = "module_context module_overloads"
  let ?fs = "[FunctionValue ?mc [1, 1], FunctionValue ?mc [0, 1]]"
  let ?execs = "[execution_at module_overloads [1, 1], execution_at module_overloads [0, 1]]"
  let ?f = "FunctionValue ?mc [2]"
  let ?E1 = "example_env\<lparr>executed_params_and_issues := (\<lambda>c. ([], [''issue'']))\<rparr>"
  let ?E2 = "example_env\<lparr>executed_params_and_issues := (\<lambda>c. ([], [''issue''])),
                         is_analysis := True\<rparr>"
  have execs: "list_all2 (\<lambda>f fe. get_function_execution f [] = Inr fe) ?fs ?execs"
    by (simp add: execution_at_def module_context_def)
  have distinct_fs: "distinct ?fs"
    by simp
  have first: "matches_signature example_env (execution_at module_overloads [1, 1])"
    by (simp add: matches_signature_def example_env_def)
  have none1: "\<forall>j<length ?fs. \<not> matches_signature ?E1 (?execs ! j)"
    by (simp add: matches_signature_def)
  have none2: "\<forall>j<length ?fs. \<not> matches_signature ?E2 (?execs ! j)"
    by (simp add: matches_signature_def)
  have infer_first: "execution_infer example_env (execution_at module_overloads [1, 1]) =
      Inr {|CompiledObject (PyStr ''s'')|}"
    by code_simp
  have infer_all: "infer_executions ?E1 ?execs =
      Inr {|CompiledObject (PyStr ''s''), CompiledObject (PyInt 1)|}"
    by code_simp
  have modes: "\<not> is_analysis ?E1" "is_analysis ?E2"
    by (simp_all add: example_env_def)
  note selected = overloaded_call_in_list_order [OF execs, where E = example_env
      and wrapped = ?f, THEN conjunct2, THEN conjunct1, rule_format, of 0]
  have distinct_execs: "distinct ?execs"
    using overloaded_call_in_list_order [OF execs, THEN conjunct1] distinct_fs by blast
  have "py_call example_env (OverloadedFunctionValue ?f ?fs) [] =
         execution_infer example_env (?execs ! 0)"
    using selected first by simp
  with infer_first
  have call: "py_call example_env (OverloadedFunctionValue ?f ?fs) [] =
      Inr {|CompiledObject (PyStr ''s'')|}"
    by simp
  have "py_call ?E1 (OverloadedFunctionValue ?f ?fs) [] = infer_executions ?E1 ?execs"
    using overloaded_call_in_list_order [OF execs, where E = ?E1 and wrapped = ?f,
        THEN conjunct2, THEN conjunct2, THEN conjunct1] none1 modes(1)
    by presburger
  from this infer_all
  have merged: "py_call ?E1 (OverloadedFunctionValue ?f ?fs) [] =
      Inr {|CompiledObject (PyStr ''s''), CompiledObject (PyInt 1)|}"
    by (rule trans)
  have analysis: "py_call ?E2 (OverloadedFunctionValue ?f ?fs) [] = Inr {||}"
    using overloaded_call_in_list_order [OF execs, where E = ?E2 and wrapped = ?f,
        THEN conjunct2, THEN conjunct2, THEN conjunct1] none2 modes(2)
    by presburger
  from execs distinct_execs first call merged analysis show ?thesis
    by (intro conjI)
qed

text \<open>
  The claim as it is written fails on the order. In the module with two overloads and
  the implementation, the overloads are found from the implementation (and from the
  second overload) backwards, so the list holds the second definition before the first.
  Both match the call. The call returns what the second definition returns, the string,
  though the first definition in source order matches as well and returns the int.
\<close>

theorem overloaded_call_textual_order_counterexample:
  "from_context 3 example_env (module_context module_overloads) [2] =
     Some (Inr (OverloadedFunctionValue
       (FunctionValue (module_context module_overloads) [2])
       [FunctionValue (module_context module_overloads) [1, 1],
        FunctionValue (module_context module_overloads) [0, 1]])) \<and>
   from_context 3 example_env (module_context module_overloads) [1, 1] =
     Some (Inr (OverloadedFunctionValue
       (FunctionValue (module_context module_overloads) [1, 1])
       [FunctionValue (module_context module_overloads) [1, 1],
        FunctionValue (module_context module_overloads) [0, 1]])) \<and>
   start_pos (the (node_at module_overloads [0, 1])) = Inr (2, 0) \<and>
   start_pos (the (node_at module_overloads [1, 1])) = Inr (4, 0) \<and>
   matches_signature example_env (execution_at module_overloads [0, 1]) \<and>
   matches_signature example_env (execution_at module_overloads [1, 1]) \<and>
   get_function_execution (FunctionValue (module_context module_overloads) [0, 1]) [] =
     Inr (execution_at module_overloads [0, 1]) \<and>
   execution_infer example_env (execution_at module_overloads [0, 1]) =
     Inr {|CompiledObject (PyInt 1)|} \<and>
   py_call example_env
     (OverloadedFunctionValue
       (FunctionValue (module_context module_overloads) [2])
       [FunctionValue (module_context module_overloads) [1, 1],
        FunctionValue (module_context module_overloads) [0, 1]]) [] =
     Inr {|CompiledObject (PyStr ''s'')|}"
  by code_simp

end
